theory Spec2Isabelle
  imports Main "HOL-Library.Sublist"
begin

section \<open>Python built-ins used by the program\<close>

text \<open>
  Strings are lists of characters with code points below 256. Unbounded Python integers
  are \<open>int\<close>. The interpreter refuses to convert between a string and an integer of
  more than 4300 digits (the default of \<open>sys.get_int_max_str_digits\<close>). \<open>int\<close> on a
  string models that limit. \<open>str\<close> is applied only to integers decoded from a JSON
  response, which the decoder has already held to the same limit, and to the rounded
  value of a float, which has at most 309 digits, so it never meets a longer one.
\<close>

datatype error = ValueError | IndexError | TypeError | MutagenError | LyricsError | BpmError

text \<open>\<open>str(n)\<close> for an integer: decimal digits, with a leading minus sign below zero.\<close>

fun digits :: "nat \<Rightarrow> string" where
  "digits n = (if n < 10 then [''0123456789'' ! n]
               else digits (n div 10) @ [''0123456789'' ! (n mod 10)])"

declare digits.simps [simp del]

definition py_str :: "int \<Rightarrow> string" where
  "py_str i = (if i < 0 then CHR ''-'' # digits (nat (- i)) else digits (nat i))"

text \<open>
  \<open>int(s)\<close> for a string, base ten: white space (tab, line feed, vertical tab, form
  feed, carriage return, space, next line, no-break space) is stripped at both ends, one
  sign may follow, then digits, where a single underscore may stand between two digits,
  and at most 4300 digits in all. Any other string raises ValueError, here \<open>None\<close>.
\<close>

definition is_space :: "char \<Rightarrow> bool" where
  "is_space c = ((of_char c :: nat) \<in> {9, 10, 11, 12, 13, 32, 133, 160})"

definition is_digit :: "char \<Rightarrow> bool" where
  "is_digit c = (48 \<le> (of_char c :: nat) \<and> (of_char c :: nat) \<le> 57)"

definition digit_val :: "char \<Rightarrow> nat" where
  "digit_val c = of_char c - 48"

fun parse_digits :: "nat \<Rightarrow> bool \<Rightarrow> string \<Rightarrow> nat option" where
  "parse_digits acc prev [] = (if prev then Some acc else None)"
| "parse_digits acc prev (c # cs) =
     (if is_digit c then parse_digits (10 * acc + digit_val c) True cs
      else if c = CHR ''_'' \<and> prev then parse_digits acc False cs
      else None)"

definition strip :: "string \<Rightarrow> string" where
  "strip s = rev (dropWhile is_space (rev (dropWhile is_space s)))"

text \<open>The digits after the sign, refused when there are more than 4300 of them.\<close>

definition parse_body :: "string \<Rightarrow> nat option" where
  "parse_body body =
     (if length (filter is_digit body) > 4300 then None else parse_digits 0 False body)"

definition py_int :: "string \<Rightarrow> int option" where
  "py_int s =
     (case strip s of
        [] \<Rightarrow> None
      | c # cs \<Rightarrow>
          if c = CHR ''-'' then map_option (\<lambda>n. - int n) (parse_body cs)
          else if c = CHR ''+'' then map_option int (parse_body cs)
          else map_option int (parse_body (c # cs)))"

text \<open>Truth value of an optional string: \<open>None\<close> and the empty string are false.\<close>

fun truthy :: "string option \<Rightarrow> bool" where
  "truthy None = False"
| "truthy (Some s) = (s \<noteq> [])"

text \<open>Running a fallible function over a list, stopping at the first exception.\<close>

fun collect :: "('a \<Rightarrow> error + 'b) \<Rightarrow> 'a list \<Rightarrow> error + 'b list" where
  "collect f [] = Inr []"
| "collect f (x # xs) =
     (case f x of
        Inl e \<Rightarrow> Inl e
      | Inr y \<Rightarrow> (case collect f xs of Inl e \<Rightarrow> Inl e | Inr ys \<Rightarrow> Inr (y # ys)))"

section \<open>Album and track records (app.py)\<close>

record track_record =
  tr_disc :: int
  tr_artist :: "string list"
  tr_title :: string
  tr_position :: int

record album_record =
  ar_ids_album :: string
  ar_ids_artist :: string
  ar_artist :: "string list"
  ar_date :: "string option"
  ar_album :: string
  ar_tracks :: "track_record list"

text \<open>
  The release as the MusicBrainz client returns it. An element of an artist credit is
  either a dictionary naming an artist or a plain string (a join phrase).
\<close>

datatype credit = Credit string string | JoinPhrase string

record mb_track =
  t_position :: string
  t_title :: string
  t_credit :: "credit list"

record medium =
  m_track_count :: int
  m_track_list :: "mb_track list"

record release =
  r_id :: string
  r_credit :: "credit list"
  r_date :: "string option"
  r_title :: string
  r_medium_list :: "medium list"

text \<open>\<open>[artist["artist"]["name"] for artist in credit if isinstance(artist, dict)]\<close>\<close>

fun credit_names :: "credit list \<Rightarrow> string list" where
  "credit_names [] = []"
| "credit_names (Credit name ident # cs) = name # credit_names cs"
| "credit_names (JoinPhrase s # cs) = credit_names cs"

text \<open>\<open>data["artist-credit"][0]["artist"]["id"]\<close>\<close>

fun first_credit_id :: "credit list \<Rightarrow> error + string" where
  "first_credit_id [] = Inl IndexError"
| "first_credit_id (Credit name ident # cs) = Inr ident"
| "first_credit_id (JoinPhrase s # cs) = Inl TypeError"

text \<open>
  The dictionary appended for one track of the medium at \<open>index\<close>. The position is
  \<open>int(track["position"]) + data["medium-list"][index - 1]["track-count"] if index > 0
  else int(track["position"])\<close>; inside the loop \<open>index - 1\<close> is in range.
\<close>

definition track_entry :: "medium list \<Rightarrow> nat \<times> mb_track \<Rightarrow> error + track_record" where
  "track_entry media it =
     (case it of (index, track) \<Rightarrow>
        (case py_int (t_position track) of
           None \<Rightarrow> Inl ValueError
         | Some p \<Rightarrow>
             Inr \<lparr>tr_disc = int index + 1,
                  tr_artist = credit_names (t_credit track),
                  tr_title = t_title track,
                  tr_position =
                    (if index > 0 then p + m_track_count (media ! (index - 1)) else p)\<rparr>))"

text \<open>The pairs (index, track) in the order the nested loops visit them.\<close>

definition indexed_tracks :: "medium list \<Rightarrow> (nat \<times> mb_track) list" where
  "indexed_tracks media =
     concat (map (\<lambda>(index, m). map (\<lambda>track. (index, track)) (m_track_list m))
                 (enumerate 0 media))"

definition grab_tracks :: "medium list \<Rightarrow> error + track_record list" where
  "grab_tracks media = collect (track_entry media) (indexed_tracks media)"

definition grab_musicbrainz :: "release \<Rightarrow> error + album_record" where
  "grab_musicbrainz data =
     (case first_credit_id (r_credit data) of
        Inl e \<Rightarrow> Inl e
      | Inr artist_id \<Rightarrow>
          (case grab_tracks (r_medium_list data) of
             Inl e \<Rightarrow> Inl e
           | Inr tracks \<Rightarrow>
               Inr \<lparr>ar_ids_album = r_id data,
                    ar_ids_artist = artist_id,
                    ar_artist = credit_names (r_credit data),
                    ar_date = r_date data,
                    ar_album = r_title data,
                    ar_tracks = tracks\<rparr>))"

section \<open>The command-line client (cli/__main__.py)\<close>

subsection \<open>Files, tags and the console\<close>

text \<open>
  The tag store is used through its interface: the tags of a file are a mapping from
  field names to lists of strings. Assigning a list to a field replaces the values of
  the field by the elements of the list, so a field assigned the empty list is dropped;
  assigning a single string stores the one-element list. A file that the FLAC parser
  rejects is \<open>Corrupt\<close>; a readable one carries its tags and its duration (passed on to
  the lyrics provider unchanged).
\<close>

type_synonym tags = "string \<rightharpoonup> string list"

text \<open>\<open>metadata[field] = values\<close>\<close>

definition set_tag :: "string \<Rightarrow> string list \<Rightarrow> tags \<Rightarrow> tags" where
  "set_tag field values metadata =
     (if values = [] then metadata(field := None) else metadata(field \<mapsto> values))"

datatype file_content = Corrupt | Flac tags int

text \<open>One path yielded by \<open>full_path.rglob("*")\<close>, with the answer of \<open>is_file()\<close>.\<close>

record entry =
  e_path :: string
  e_is_file :: bool

text \<open>A tuple (title, position, file) of an album's track list.\<close>

type_synonym cand = "string option \<times> string option \<times> string"

record group =
  g_album :: string
  g_artist :: string
  g_tracks :: "cand list"

datatype message =
    Path_missing
  | Missing_artist string
  | Missing_album string
  | Failed_loading string
  | Header string string nat
  | Failed_fetch
  | Not_found
  | No_data string
  | No_match string
  | Updated string

text \<open>The value of \<open>response["data"]\<close>: an album record or null.\<close>

type_synonym response = "album_record option"

datatype reply = Transport_failure | Reply response

datatype lyrics_reply = Lyrics_failure | No_lyrics | Lyrics "string option" "string option"

text \<open>
  The collaborators: the remote service (its answer may depend on the number of
  requests made before), the lyrics provider, the BPM pipeline (ffmpeg, bpm, float and
  round, \<open>None\<close> when any of them raises) and the version string of the package.
\<close>

record env =
  post_find :: "nat \<Rightarrow> string \<Rightarrow> string \<Rightarrow> nat \<Rightarrow> reply"
  lrclib_get :: "string \<Rightarrow> string \<Rightarrow> string \<Rightarrow> int \<Rightarrow> lyrics_reply"
  bpm_tool :: "string \<Rightarrow> int option"
  version :: string

record state =
  disk :: "string \<Rightarrow> file_content"
  cache :: "string \<times> string \<rightharpoonup> response"
  requests :: "(string \<times> string \<times> nat) list"
  console :: "message list"

definition secho :: "message \<Rightarrow> state \<Rightarrow> state" where
  "secho m st = st\<lparr>console := console st @ [m]\<rparr>"

text \<open>
  Modelled from the spec: the module \<open>cache\<close> (\<open>find_response\<close>, \<open>set_response\<close>) is
  not among the sources. Section 4.1: get is an exact match on both strings and reports
  absence for a missing key; put overwrites the entry of that exact key.
\<close>

definition find_response ::
  "(string \<times> string \<rightharpoonup> response) \<Rightarrow> string \<Rightarrow> string \<Rightarrow> response option" where
  "find_response c artist album = c (artist, album)"

definition set_response ::
  "(string \<times> string \<rightharpoonup> response) \<Rightarrow> string \<Rightarrow> string \<Rightarrow> response
     \<Rightarrow> (string \<times> string \<rightharpoonup> response)" where
  "set_response c artist album r = c((artist, album) \<mapsto> r)"

subsection \<open>Paths\<close>

text \<open>\<open>file.name\<close>: the last component of the path.\<close>

definition path_name :: "string \<Rightarrow> string" where
  "path_name p = rev (takeWhile (\<lambda>c. c \<noteq> CHR ''/'') (rev p))"

text \<open>\<open>s.rfind(c)\<close>, with \<open>None\<close> for -1.\<close>

definition rfind :: "char \<Rightarrow> string \<Rightarrow> nat option" where
  "rfind c s =
     (if c \<in> set s then Some (length s - 1 - length (takeWhile (\<lambda>x. x \<noteq> c) (rev s)))
      else None)"

text \<open>
  \<open>file.suffix\<close> as pathlib computes it: with \<open>i = name.rfind('.')\<close>, the suffix is
  \<open>name[i:]\<close> if \<open>0 < i < len(name) - 1\<close> and the empty string otherwise.
\<close>

definition path_suffix :: "string \<Rightarrow> string" where
  "path_suffix p =
     (let name = path_name p in
      case rfind (CHR ''.'') name of
        None \<Rightarrow> []
      | Some i \<Rightarrow> if 0 < i \<and> i + 1 < length name then drop i name else [])"

subsection \<open>The directory scan (lines 66 to 109)\<close>

text \<open>\<open>values[0]\<close> on a list of tag values.\<close>

fun first_value :: "string list \<Rightarrow> error + string" where
  "first_value [] = Inl IndexError"
| "first_value (v # vs) = Inr v"

text \<open>\<open>metadata.get(key, [None])[0]\<close>\<close>

fun get_first :: "string list option \<Rightarrow> error + string option" where
  "get_first None = Inr None"
| "get_first (Some []) = Inl IndexError"
| "get_first (Some (v # vs)) = Inr (Some v)"

text \<open>
  Lines 92 to 105: the first item of the import list whose album equals the file's album
  receives the tuple; when there is none, a new item with the file's album and artist is
  appended and receives it.
\<close>

fun append_track :: "string \<Rightarrow> string \<Rightarrow> cand \<Rightarrow> group list \<Rightarrow> group list" where
  "append_track artist album t [] = [\<lparr>g_album = album, g_artist = artist, g_tracks = [t]\<rparr>]"
| "append_track artist album t (item # import_list) =
     (if g_album item = album then item\<lparr>g_tracks := g_tracks item @ [t]\<rparr> # import_list
      else item # append_track artist album t import_list)"

text \<open>
  One iteration of the loop over the paths. Only MutagenError is caught (the file is
  reported and left out); any other exception leaves the command.
\<close>

definition scan_file ::
  "bool \<Rightarrow> entry \<Rightarrow> state \<times> group list \<Rightarrow> error \<times> state + state \<times> group list" where
  "scan_file force file acc =
     (case acc of (st, import_list) \<Rightarrow>
        if \<not> (e_is_file file \<and> path_suffix (e_path file) = ''.flac'') then Inr acc
        else
          (case disk st (e_path file) of
             Corrupt \<Rightarrow> Inr (secho (Failed_loading (e_path file)) st, import_list)
           | Flac metadata len \<Rightarrow>
               if metadata ''PIZZA'' \<noteq> None \<and> \<not> force then Inr acc
               else
                 (case (case metadata ''ALBUMARTIST'' of
                          Some a \<Rightarrow> Some a
                        | None \<Rightarrow> metadata ''ARTIST'') of
                    None \<Rightarrow> Inr (secho (Missing_artist (e_path file)) st, import_list)
                  | Some artist \<Rightarrow>
                      (case metadata ''ALBUM'' of
                         None \<Rightarrow> Inr (secho (Missing_album (e_path file)) st, import_list)
                       | Some album \<Rightarrow>
                           (case first_value artist of
                              Inl e \<Rightarrow> Inl (e, st)
                            | Inr artist0 \<Rightarrow>
                                (case first_value album of
                                   Inl e \<Rightarrow> Inl (e, st)
                                 | Inr album0 \<Rightarrow>
                                     (case get_first (metadata ''TITLE'') of
                                        Inl e \<Rightarrow> Inl (e, st)
                                      | Inr title \<Rightarrow>
                                          (case get_first (metadata ''TRACK'') of
                                             Inl e \<Rightarrow> Inl (e, st)
                                           | Inr position \<Rightarrow>
                                               Inr (st,
                                                    append_track artist0 album0
                                                      (title, position, e_path file)
                                                      import_list)))))))))"

fun scan :: "bool \<Rightarrow> entry list \<Rightarrow> state \<times> group list \<Rightarrow> error \<times> state + state \<times> group list"
  where
  "scan force [] acc = Inr acc"
| "scan force (file # files) acc =
     (case scan_file force file acc of
        Inl e \<Rightarrow> Inl e
      | Inr acc' \<Rightarrow> scan force files acc')"

subsection \<open>Resolving an album (lines 117 to 135)\<close>

text \<open>
  The body of the \<open>try\<close> block. The result \<open>None\<close> is the \<open>except Exception\<close> branch;
  otherwise it carries the response, cached or freshly fetched. The cache is written on
  line 126 only, under \<open>response["data"] is not None\<close>.
\<close>

definition resolve :: "env \<Rightarrow> state \<Rightarrow> group \<Rightarrow> state \<times> response option" where
  "resolve ev st item =
     (let artist = g_artist item; album = g_album item; trackc = length (g_tracks item) in
      case find_response (cache st) artist album of
        Some response \<Rightarrow> (st, Some response)
      | None \<Rightarrow>
          (let st1 = st\<lparr>requests := requests st @ [(artist, album, trackc)]\<rparr> in
           case post_find ev (length (requests st)) artist album trackc of
             Transport_failure \<Rightarrow> (st1, None)
           | Reply response \<Rightarrow>
               (if response \<noteq> None
                then st1\<lparr>cache := set_response (cache st1) artist album response\<rparr>
                else st1,
                Some response)))"

subsection \<open>Matching and writing (lines 137 to 183)\<close>

text \<open>
  \<open>sorted(item["tracks"], key = lambda x: int(x[1]) if x[1] is not None else 0)\<close>: the
  keys are computed first, one per tuple, and the sort is stable.
\<close>

definition sort_position :: "cand \<Rightarrow> int option" where
  "sort_position x = (case fst (snd x) of None \<Rightarrow> Some 0 | Some p \<Rightarrow> py_int p)"

definition sorted_tracks :: "cand list \<Rightarrow> error + cand list" where
  "sorted_tracks tracks =
     (case those (map sort_position tracks) of
        None \<Rightarrow> Inl ValueError
      | Some keys \<Rightarrow> Inr (map snd (sort_key fst (zip keys tracks))))"

text \<open>The predicate of line 145.\<close>

definition matches :: "string option \<Rightarrow> string option \<Rightarrow> track_record \<Rightarrow> bool" where
  "matches title position x =
     (Some (tr_title x) = title \<or> Some (py_str (tr_position x)) = position)"

datatype match_result = No_data_to_match | No_match_found | Matched track_record

text \<open>Lines 141 to 148: the guard \<open>not (title or position)\<close>, then the first match.\<close>

definition match_track ::
  "string option \<Rightarrow> string option \<Rightarrow> track_record list \<Rightarrow> match_result" where
  "match_track title position tracks =
     (if \<not> (truthy title \<or> truthy position) then No_data_to_match
      else
        (case find (matches title position) tracks of
           None \<Rightarrow> No_match_found
         | Some m \<Rightarrow> Matched m))"

definition field_index :: "(string \<times> (album_record \<Rightarrow> track_record \<Rightarrow> string list)) list"
  where
  "field_index =
     [(''DISC'', \<lambda>r m. [py_str (tr_disc m)]),
      (''ALBUM'', \<lambda>r m. [ar_album r]),
      (''TRACK'', \<lambda>r m. [py_str (tr_position m)]),
      (''TITLE'', \<lambda>r m. [tr_title m]),
      (''ARTIST'', \<lambda>r m. tr_artist m),
      (''ALBUMARTIST'', \<lambda>r m. ar_artist r),
      (''MUSICBRAINZ_ALBUMID'', \<lambda>r m. [ar_ids_album r]),
      (''MUSICBRAINZ_ALBUMARTISTID'', \<lambda>r m. [ar_ids_artist r])]"

text \<open>\<open>metadata.clear()\<close>\<close>

definition clear :: "tags \<Rightarrow> tags" where
  "clear metadata = Map.empty"

text \<open>Lines 154 and 155.\<close>

definition write_fields :: "album_record \<Rightarrow> track_record \<Rightarrow> tags \<Rightarrow> tags" where
  "write_fields r m metadata =
     foldl (\<lambda>md (field, function). set_tag field (function r m) md) metadata field_index"

text \<open>Lines 157 to 159; \<open>date.split("-")[0]\<close> is the text before the first hyphen.\<close>

definition write_date :: "album_record \<Rightarrow> tags \<Rightarrow> tags" where
  "write_date r metadata =
     (case ar_date r of
        None \<Rightarrow> metadata
      | Some date \<Rightarrow>
          metadata(''YEAR'' \<mapsto> [takeWhile (\<lambda>c. c \<noteq> CHR ''-'') date], ''DATE'' \<mapsto> [date]))"

text \<open>
  Lines 162 to 167. \<open>result.get("syncedLyrics", result.get("plainLyrics")) or
  result.get("plainLyrics")\<close> is the synced text when it is a non-empty string and the
  plain text otherwise.
\<close>

definition fetch_lyrics ::
  "env \<Rightarrow> bool \<Rightarrow> album_record \<Rightarrow> track_record \<Rightarrow> int \<Rightarrow> tags \<Rightarrow> error + tags" where
  "fetch_lyrics ev lyrics r m len metadata =
     (if \<not> lyrics then Inr metadata
      else
        (case ar_artist r of
           [] \<Rightarrow> Inl IndexError
         | a # as \<Rightarrow>
             (case lrclib_get ev (tr_title m) a (ar_album r) len of
                Lyrics_failure \<Rightarrow> Inl LyricsError
              | No_lyrics \<Rightarrow> Inr metadata
              | Lyrics synced plain \<Rightarrow>
                  (case (if truthy synced then synced else plain) of
                     None \<Rightarrow> Inr metadata
                   | Some final_lyrics \<Rightarrow> Inr (metadata(''LYRICS'' \<mapsto> [final_lyrics]))))))"

text \<open>Lines 170 to 178.\<close>

definition calculate_bpm :: "env \<Rightarrow> bool \<Rightarrow> string \<Rightarrow> tags \<Rightarrow> error + tags" where
  "calculate_bpm ev bpm file metadata =
     (if \<not> bpm then Inr metadata
      else
        (case bpm_tool ev file of
           None \<Rightarrow> Inl BpmError
         | Some n \<Rightarrow> Inr (metadata(''BPM'' \<mapsto> [py_str n]))))"

text \<open>
  Lines 151 to 181: the tag mapping held in memory, from the loaded one, up to and
  including the marker.
\<close>

definition assemble ::
  "env \<Rightarrow> bool \<Rightarrow> bool \<Rightarrow> album_record \<Rightarrow> track_record \<Rightarrow> string \<Rightarrow> int \<Rightarrow> tags
     \<Rightarrow> error + tags" where
  "assemble ev lyrics bpm r m file len metadata =
     (case fetch_lyrics ev lyrics r m len (write_date r (write_fields r m (clear metadata))) of
        Inl e \<Rightarrow> Inl e
      | Inr md1 \<Rightarrow>
          (case calculate_bpm ev bpm file md1 of
             Inl e \<Rightarrow> Inl e
           | Inr md2 \<Rightarrow> Inr (md2(''PIZZA'' \<mapsto> [version ev]))))"

text \<open>
  One iteration of the loop of line 138. \<open>metadata.save()\<close> on line 182 is the only
  write to the file; an exception before it leaves the command with the disk as it was.
\<close>

definition process_file ::
  "env \<Rightarrow> bool \<Rightarrow> bool \<Rightarrow> album_record \<Rightarrow> state \<Rightarrow> cand \<Rightarrow> error \<times> state + state" where
  "process_file ev lyrics bpm r st x =
     (case x of (title, position, file) \<Rightarrow>
        (case match_track title position (ar_tracks r) of
           No_data_to_match \<Rightarrow> Inr (secho (No_data (path_name file)) st)
         | No_match_found \<Rightarrow> Inr (secho (No_match (path_name file)) st)
         | Matched m \<Rightarrow>
             (case disk st file of
                Corrupt \<Rightarrow> Inl (MutagenError, st)
              | Flac metadata len \<Rightarrow>
                  (case assemble ev lyrics bpm r m file len metadata of
                     Inl e \<Rightarrow> Inl (e, st)
                   | Inr md \<Rightarrow>
                       Inr (secho (Updated (path_name file))
                              (st\<lparr>disk := (disk st)(file := Flac md len)\<rparr>))))))"

fun process_files ::
  "env \<Rightarrow> bool \<Rightarrow> bool \<Rightarrow> album_record \<Rightarrow> state \<Rightarrow> cand list \<Rightarrow> error \<times> state + state" where
  "process_files ev lyrics bpm r st [] = Inr st"
| "process_files ev lyrics bpm r st (x # xs) =
     (case process_file ev lyrics bpm r st x of
        Inl e \<Rightarrow> Inl e
      | Inr st' \<Rightarrow> process_files ev lyrics bpm r st' xs)"

text \<open>One iteration of the loop of line 112.\<close>

definition process_group ::
  "env \<Rightarrow> bool \<Rightarrow> bool \<Rightarrow> state \<Rightarrow> group \<Rightarrow> error \<times> state + state" where
  "process_group ev lyrics bpm st item =
     (let st0 = secho (Header (g_album item) (g_artist item) (length (g_tracks item))) st in
      case resolve ev st0 item of
        (st1, None) \<Rightarrow> Inr (secho Failed_fetch st1)
      | (st1, Some None) \<Rightarrow> Inr (secho Not_found st1)
      | (st1, Some (Some response)) \<Rightarrow>
          (case sorted_tracks (g_tracks item) of
             Inl e \<Rightarrow> Inl (e, st1)
           | Inr tracks \<Rightarrow> process_files ev lyrics bpm response st1 tracks))"

fun process_groups ::
  "env \<Rightarrow> bool \<Rightarrow> bool \<Rightarrow> state \<Rightarrow> group list \<Rightarrow> error \<times> state + state" where
  "process_groups ev lyrics bpm st [] = Inr st"
| "process_groups ev lyrics bpm st (item # import_list) =
     (case process_group ev lyrics bpm st item of
        Inl e \<Rightarrow> Inl e
      | Inr st' \<Rightarrow> process_groups ev lyrics bpm st' import_list)"

text \<open>
  The command \<open>update\<close>. The path argument is given by the answer of \<open>is_dir()\<close> and the
  paths that \<open>rglob("*")\<close> yields below it.
\<close>

definition update ::
  "env \<Rightarrow> bool \<Rightarrow> entry list \<Rightarrow> bool \<Rightarrow> bool \<Rightarrow> bool \<Rightarrow> state \<Rightarrow> error \<times> state + state" where
  "update ev is_dir files bpm lyrics force st =
     (if \<not> is_dir then Inr (secho Path_missing st)
      else
        (case scan force files (st, []) of
           Inl e \<Rightarrow> Inl e
         | Inr (st1, import_list) \<Rightarrow> process_groups ev lyrics bpm st1 import_list))"

section \<open>Definitions used to state the properties\<close>

text \<open>
  The position rule in the words of the specification (section 4.4): on disc 0 the raw
  position as published, on a later disc the raw position plus the track count of the
  disc just before it.
\<close>

definition spec_global_position :: "medium list \<Rightarrow> nat \<Rightarrow> int \<Rightarrow> int" where
  "spec_global_position media i raw =
     (if i = 0 then raw else raw + m_track_count (media ! (i - 1)))"

text \<open>A release of three discs with 10, 4 and 2 tracks, one track listed on each.\<close>

definition three_discs :: release where
  "three_discs =
     \<lparr>r_id = ''rel'', r_credit = [Credit ''X'' ''xid''], r_date = None, r_title = ''Y'',
      r_medium_list =
        [\<lparr>m_track_count = 10,
          m_track_list = [\<lparr>t_position = ''3'', t_title = ''a'', t_credit = []\<rparr>]\<rparr>,
         \<lparr>m_track_count = 4,
          m_track_list = [\<lparr>t_position = ''5'', t_title = ''b'', t_credit = []\<rparr>]\<rparr>,
         \<lparr>m_track_count = 2,
          m_track_list = [\<lparr>t_position = ''1'', t_title = ''c'', t_credit = []\<rparr>]\<rparr>]\<rparr>"

text \<open>Two files carrying the same album title under different artists.\<close>

definition hits_disk :: "string \<Rightarrow> file_content" where
  "hits_disk p =
     (if p = ''q/1.flac''
      then Flac [''ARTIST'' \<mapsto> [''Queen''], ''ALBUM'' \<mapsto> [''Greatest Hits''],
                 ''TITLE'' \<mapsto> [''Bohemian Rhapsody''], ''TRACK'' \<mapsto> [''1'']] 354
      else if p = ''a/1.flac''
      then Flac [''ARTIST'' \<mapsto> [''ABBA''], ''ALBUM'' \<mapsto> [''Greatest Hits''],
                 ''TITLE'' \<mapsto> [''SOS''], ''TRACK'' \<mapsto> [''1'']] 200
      else Corrupt)"

definition hits_state :: state where
  "hits_state = \<lparr>disk = hits_disk, cache = Map.empty, requests = [], console = []\<rparr>"

text \<open>A state in which no path holds a readable FLAC file.\<close>

definition other_files_state :: state where
  "other_files_state =
     \<lparr>disk = (\<lambda>p. Corrupt), cache = Map.empty, requests = [], console = []\<rparr>"

text \<open>
  A two-track album, collaborators and a disk for the examples: the lyrics provider
  fails on the title A, the BPM pipeline works on the second file only, and the second
  file carries the marker of an earlier run.
\<close>

definition demo_album :: album_record where
  "demo_album =
     \<lparr>ar_ids_album = ''alb-id'', ar_ids_artist = ''art-id'', ar_artist = [''X''],
      ar_date = Some ''2024-05-01'', ar_album = ''Y'',
      ar_tracks =
        [\<lparr>tr_disc = 1, tr_artist = [''X''], tr_title = ''A'', tr_position = 1\<rparr>,
         \<lparr>tr_disc = 1, tr_artist = [''X'', ''Z''], tr_title = ''B'', tr_position = 2\<rparr>]\<rparr>"

definition demo_env :: env where
  "demo_env =
     \<lparr>post_find = (\<lambda>n artist album trackc.
        if artist = ''X'' \<and> album = ''Y'' then Reply (Some demo_album)
        else if artist = ''Ghost'' then Reply None
        else Transport_failure),
      lrclib_get = (\<lambda>title artist album len.
        if title = ''A'' then Lyrics_failure else Lyrics None (Some ''la la'')),
      bpm_tool = (\<lambda>file. if file = ''m/2.flac'' then Some 120 else None),
      version = ''0.1.0''\<rparr>"

definition demo_disk :: "string \<Rightarrow> file_content" where
  "demo_disk p =
     (if p = ''m/1.flac''
      then Flac [''ARTIST'' \<mapsto> [''X''], ''ALBUM'' \<mapsto> [''Y''], ''TITLE'' \<mapsto> [''A''],
                 ''TRACK'' \<mapsto> [''1''], ''COMMENT'' \<mapsto> [''ripped'']] 180
      else if p = ''m/2.flac''
      then Flac [''ARTIST'' \<mapsto> [''X''], ''ALBUM'' \<mapsto> [''Y''], ''TITLE'' \<mapsto> [''B''],
                 ''TRACK'' \<mapsto> [''2''], ''PIZZA'' \<mapsto> [''0.0.9'']] 200
      else Corrupt)"

definition demo_state :: state where
  "demo_state = \<lparr>disk = demo_disk, cache = Map.empty, requests = [], console = []\<rparr>"

text \<open>The tags of the second file after an update with BPM and without lyrics.\<close>

definition demo_tags_B :: tags where
  "demo_tags_B =
     [''DISC'' \<mapsto> [''1''], ''ALBUM'' \<mapsto> [''Y''], ''TRACK'' \<mapsto> [''2''],
      ''TITLE'' \<mapsto> [''B''], ''ARTIST'' \<mapsto> [''X'', ''Z''], ''ALBUMARTIST'' \<mapsto> [''X''],
      ''MUSICBRAINZ_ALBUMID'' \<mapsto> [''alb-id''],
      ''MUSICBRAINZ_ALBUMARTISTID'' \<mapsto> [''art-id''],
      ''YEAR'' \<mapsto> [''2024''], ''DATE'' \<mapsto> [''2024-05-01''],
      ''BPM'' \<mapsto> [''120''], ''PIZZA'' \<mapsto> [''0.1.0'']]"

definition demo_state_B :: state where
  "demo_state_B =
     demo_state\<lparr>disk := demo_disk(''m/2.flac'' := Flac demo_tags_B 200),
                console := [Updated ''2.flac'']\<rparr>"

text \<open>Groups for the examples: one the service does not know, one for which the
  service cannot be reached, the demo album, and the demo album with a position that is
  not a number.\<close>

definition ghost_group :: group where
  "ghost_group =
     \<lparr>g_album = ''Nothing'', g_artist = ''Ghost'',
      g_tracks = [(Some ''t'', Some ''1'', ''g/1.flac'')]\<rparr>"

definition offline_group :: group where
  "offline_group =
     \<lparr>g_album = ''Elsewhere'', g_artist = ''Nobody'',
      g_tracks = [(Some ''t'', Some ''1'', ''n/1.flac'')]\<rparr>"

definition demo_group :: group where
  "demo_group =
     \<lparr>g_album = ''Y'', g_artist = ''X'',
      g_tracks = [(Some ''A'', Some ''1'', ''m/1.flac''), (Some ''B'', Some ''2'', ''m/2.flac'')]\<rparr>"

definition bad_group :: group where
  "bad_group =
     \<lparr>g_album = ''Y'', g_artist = ''X'',
      g_tracks = [(Some ''A'', Some ''1'', ''m/1.flac''), (Some ''B'', Some ''1/12'', ''m/2.flac'')]\<rparr>"

definition shuffled_group :: group where
  "shuffled_group =
     \<lparr>g_album = ''Y'', g_artist = ''X'',
      g_tracks = [(Some ''B'', Some ''2'', ''m/2.flac''), (Some ''A'', None, ''m/1.flac'')]\<rparr>"

definition demo_state_resolved :: state where
  "demo_state_resolved =
     demo_state\<lparr>cache := [(''X'', ''Y'') \<mapsto> Some demo_album],
                requests := [(''X'', ''Y'', 2)],
                console := [Header ''Y'' ''X'' 2]\<rparr>"

text \<open>The eight fields of \<open>field_index\<close>, and the first demo file before and after an update
  without enrichments.\<close>

definition fixed_fields :: "string set" where
  "fixed_fields =
     {''DISC'', ''ALBUM'', ''TRACK'', ''TITLE'', ''ARTIST'', ''ALBUMARTIST'',
      ''MUSICBRAINZ_ALBUMID'', ''MUSICBRAINZ_ALBUMARTISTID''}"

definition demo_tags_A :: tags where
  "demo_tags_A =
     [''ARTIST'' \<mapsto> [''X''], ''ALBUM'' \<mapsto> [''Y''], ''TITLE'' \<mapsto> [''A''],
      ''TRACK'' \<mapsto> [''1''], ''COMMENT'' \<mapsto> [''ripped'']]"

definition demo_track_A :: track_record where
  "demo_track_A = \<lparr>tr_disc = 1, tr_artist = [''X''], tr_title = ''A'', tr_position = 1\<rparr>"

definition demo_tags_A_new :: tags where
  "demo_tags_A_new =
     [''DISC'' \<mapsto> [''1''], ''ALBUM'' \<mapsto> [''Y''], ''TRACK'' \<mapsto> [''1''],
      ''TITLE'' \<mapsto> [''A''], ''ARTIST'' \<mapsto> [''X''], ''ALBUMARTIST'' \<mapsto> [''X''],
      ''MUSICBRAINZ_ALBUMID'' \<mapsto> [''alb-id''],
      ''MUSICBRAINZ_ALBUMARTISTID'' \<mapsto> [''art-id''],
      ''YEAR'' \<mapsto> [''2024''], ''DATE'' \<mapsto> [''2024-05-01''],
      ''PIZZA'' \<mapsto> [''0.1.0'']]"

definition demo_state_A :: state where
  "demo_state_A =
     demo_state\<lparr>disk := demo_disk(''m/1.flac'' := Flac demo_tags_A_new 180),
                console := [Updated ''1.flac'']\<rparr>"

text \<open>
  An album whose only track names no artist, with the tags and the state that an update
  of the first demo file from it leaves; and a listing of the demo directory with the
  state after a forced update with BPM.
\<close>

definition unnamed_album :: album_record where
  "unnamed_album =
     demo_album\<lparr>ar_tracks :=
       [\<lparr>tr_disc = 1, tr_artist = [], tr_title = ''A'', tr_position = 1\<rparr>]\<rparr>"

definition unnamed_tags :: tags where
  "unnamed_tags =
     [''DISC'' \<mapsto> [''1''], ''ALBUM'' \<mapsto> [''Y''], ''TRACK'' \<mapsto> [''1''],
      ''TITLE'' \<mapsto> [''A''], ''ALBUMARTIST'' \<mapsto> [''X''],
      ''MUSICBRAINZ_ALBUMID'' \<mapsto> [''alb-id''],
      ''MUSICBRAINZ_ALBUMARTISTID'' \<mapsto> [''art-id''],
      ''YEAR'' \<mapsto> [''2024''], ''DATE'' \<mapsto> [''2024-05-01''],
      ''PIZZA'' \<mapsto> [''0.1.0'']]"

definition unnamed_state :: state where
  "unnamed_state =
     demo_state\<lparr>disk := demo_disk(''m/1.flac'' := Flac unnamed_tags 180),
                console := [Updated ''1.flac'']\<rparr>"

definition demo_listing :: "entry list" where
  "demo_listing =
     [\<lparr>e_path = ''m/cover.jpg'', e_is_file = True\<rparr>,
      \<lparr>e_path = ''m/2.flac'', e_is_file = True\<rparr>]"

definition demo_state_forced :: state where
  "demo_state_forced =
     \<lparr>disk = demo_disk(''m/2.flac'' := Flac demo_tags_B 200),
      cache = [(''X'', ''Y'') \<mapsto> Some demo_album],
      requests = [(''X'', ''Y'', 1)],
      console = [Header ''Y'' ''X'' 1, Updated ''2.flac'']\<rparr>"

section \<open>Position normalisation\<close>

lemma collect_list_all2:
  "collect f xs = Inr ys \<Longrightarrow> list_all2 (\<lambda>x y. f x = Inr y) xs ys"
  by (induction xs arbitrary: ys) (auto split: sum.splits)

text \<open>The loops visit exactly the tracks of each medium, paired with the medium's index.\<close>

lemma indexed_tracks_iff:
  "(i, t) \<in> set (indexed_tracks media) \<longleftrightarrow>
     i < length media \<and> t \<in> set (m_track_list (media ! i))"
proof
  assume "(i, t) \<in> set (indexed_tracks media)"
  then show "i < length media \<and> t \<in> set (m_track_list (media ! i))"
    by (auto simp: indexed_tracks_def in_set_enumerate_eq)
next
  assume a: "i < length media \<and> t \<in> set (m_track_list (media ! i))"
  then have "(i, media ! i) \<in> set (enumerate 0 media)"
    by (simp add: in_set_enumerate_eq)
  with a show "(i, t) \<in> set (indexed_tracks media)"
    unfolding indexed_tracks_def by force
qed

lemma three_discs_eval:
  "grab_musicbrainz three_discs =
     Inr \<lparr>ar_ids_album = ''rel'', ar_ids_artist = ''xid'', ar_artist = [''X''], ar_date = None,
          ar_album = ''Y'',
          ar_tracks =
            [\<lparr>tr_disc = 1, tr_artist = [], tr_title = ''a'', tr_position = 3\<rparr>,
             \<lparr>tr_disc = 2, tr_artist = [], tr_title = ''b'', tr_position = 15\<rparr>,
             \<lparr>tr_disc = 3, tr_artist = [], tr_title = ''c'', tr_position = 5\<rparr>]\<rparr>"
  by (simp add: grab_musicbrainz_def three_discs_def grab_tracks_def indexed_tracks_def
      track_entry_def py_int_def parse_body_def strip_def is_space_def is_digit_def
      digit_val_def enumerate_eq_zip upt_rec)

text \<open>
  C3. In every release record that \<open>grab_musicbrainz\<close> builds, the tracks stand in the
  order of the discs and of the tracks on each disc, and the track built from track
  \<open>t\<close> of the disc at index \<open>i\<close> has the disc number \<open>i + 1\<close> and the position given by
  the rule of the specification: the raw position \<open>int(t["position"])\<close> on disc 0, the
  raw position plus the track count of disc \<open>i - 1\<close> alone on a later disc.
\<close>

theorem grab_musicbrainz_position:
  assumes "grab_musicbrainz data = Inr r"
  shows "list_all2
           (\<lambda>(i, t) x. \<exists>raw. py_int (t_position t) = Some raw \<and> tr_disc x = int i + 1 \<and>
                tr_position x = spec_global_position (r_medium_list data) i raw)
           (indexed_tracks (r_medium_list data)) (ar_tracks r)"
proof -
  from assms have g: "grab_tracks (r_medium_list data) = Inr (ar_tracks r)"
    by (auto simp: grab_musicbrainz_def split: sum.splits)
  have "list_all2 (\<lambda>it x. track_entry (r_medium_list data) it = Inr x)
          (indexed_tracks (r_medium_list data)) (ar_tracks r)"
    using g unfolding grab_tracks_def by (rule collect_list_all2)
  then show ?thesis
    by (rule list_all2_mono)
       (auto simp: track_entry_def spec_global_position_def split: option.splits prod.splits)
qed

text \<open>
  On the three-disc release the track at position 1 of the third disc receives 1 + 4 = 5:
  the count of the second disc only, not 1 + 10 + 4.
\<close>

theorem grab_musicbrainz_position_witness:
  "grab_musicbrainz three_discs =
     Inr \<lparr>ar_ids_album = ''rel'', ar_ids_artist = ''xid'', ar_artist = [''X''], ar_date = None,
          ar_album = ''Y'',
          ar_tracks =
            [\<lparr>tr_disc = 1, tr_artist = [], tr_title = ''a'', tr_position = 3\<rparr>,
             \<lparr>tr_disc = 2, tr_artist = [], tr_title = ''b'', tr_position = 15\<rparr>,
             \<lparr>tr_disc = 3, tr_artist = [], tr_title = ''c'', tr_position = 5\<rparr>]\<rparr> \<and>
   list_all2
     (\<lambda>(i, t) x. \<exists>raw. py_int (t_position t) = Some raw \<and> tr_disc x = int i + 1 \<and>
          tr_position x = spec_global_position (r_medium_list three_discs) i raw)
     (indexed_tracks (r_medium_list three_discs))
     [\<lparr>tr_disc = 1, tr_artist = [], tr_title = ''a'', tr_position = 3\<rparr>,
      \<lparr>tr_disc = 2, tr_artist = [], tr_title = ''b'', tr_position = 15\<rparr>,
      \<lparr>tr_disc = 3, tr_artist = [], tr_title = ''c'', tr_position = 5\<rparr>]"
  using grab_musicbrainz_position [OF three_discs_eval] three_discs_eval by simp

section \<open>Evaluation of the examples\<close>

lemmas py_str_eval = py_str_def digits.simps

lemmas py_int_eval = py_int_def parse_body_def strip_def is_space_def is_digit_def digit_val_def

lemmas path_eval = path_suffix_def path_name_def rfind_def

lemma demo_match_B:
  "match_track (Some ''B'') (Some ''2'') (ar_tracks demo_album) =
     Matched \<lparr>tr_disc = 1, tr_artist = [''X'', ''Z''], tr_title = ''B'', tr_position = 2\<rparr>"
  by (simp add: match_track_def matches_def demo_album_def py_str_eval)

lemma demo_process_B:
  "process_file demo_env False True demo_album demo_state (Some ''B'', Some ''2'', ''m/2.flac'') =
     Inr demo_state_B"
  apply (simp add: process_file_def demo_match_B)
  apply (simp add: demo_state_def demo_disk_def assemble_def fetch_lyrics_def calculate_bpm_def
      write_date_def write_fields_def set_tag_def field_index_def clear_def demo_env_def demo_album_def
      secho_def py_str_eval path_name_def demo_state_B_def demo_tags_B_def)
  done

section \<open>The directory scan\<close>

lemma path_suffix_flac: "path_suffix p = ''.flac'' \<Longrightarrow> suffix ''.flac'' (path_name p)"
  unfolding path_suffix_def Let_def
  by (auto split: option.splits if_splits) (metis suffix_drop)

lemma scan_file_skip:
  "\<not> (e_is_file file \<and> suffix ''.flac'' (path_name (e_path file))) \<Longrightarrow>
     scan_file force file acc = Inr acc"
  using path_suffix_flac [of "e_path file"] by (auto simp: scan_file_def split: prod.splits)

lemma scan_append:
  "scan force (xs @ ys) acc =
     (case scan force xs acc of Inl e \<Rightarrow> Inl e | Inr acc' \<Rightarrow> scan force ys acc')"
  by (induction xs arbitrary: acc) (auto split: sum.splits)

text \<open>
  C10. A path that is not a regular file, or whose name does not end with \<open>.flac\<close>, is
  passed over by the scan: in every state (whatever the disk holds at that path, so
  without reading it) the iteration returns the state and the import list as they were,
  with no message and no exception, and dropping the path from the listing does not
  change the result of the scan.
\<close>

theorem scan_ignores_other_files:
  assumes "\<not> (e_is_file file \<and> suffix ''.flac'' (path_name (e_path file)))"
  shows "scan_file force file (st, import_list) = Inr (st, import_list) \<and>
         scan force (before @ file # after) acc = scan force (before @ after) acc"
  using assms by (simp add: scan_append scan_file_skip split: sum.splits)

theorem scan_ignores_other_files_witness:
  "\<not> (e_is_file \<lparr>e_path = ''music/cover.jpg'', e_is_file = True\<rparr> \<and>
       suffix ''.flac''
         (path_name (e_path \<lparr>e_path = ''music/cover.jpg'', e_is_file = True\<rparr>))) \<and>
   scan_file False \<lparr>e_path = ''music/cover.jpg'', e_is_file = True\<rparr> (other_files_state, []) =
     Inr (other_files_state, []) \<and>
   scan False ([] @ \<lparr>e_path = ''music/cover.jpg'', e_is_file = True\<rparr> # [])
     (other_files_state, []) =
     scan False ([] @ []) (other_files_state, [])"
proof -
  have h: "\<not> (e_is_file \<lparr>e_path = ''music/cover.jpg'', e_is_file = True\<rparr> \<and>
       suffix ''.flac''
         (path_name (e_path \<lparr>e_path = ''music/cover.jpg'', e_is_file = True\<rparr>)))"
    by (simp add: path_name_def suffix_def)
  show ?thesis
    using h scan_ignores_other_files
      [OF h, of False other_files_state "[]" "[]" "[]" "(other_files_state, [])"]
    by blast
qed

text \<open>The albums of the import list stay pairwise different.\<close>

lemma append_track_albums:
  "set (map g_album (append_track artist album t import_list)) =
     insert album (set (map g_album import_list))"
  by (induction import_list) auto

lemma append_track_distinct:
  "distinct (map g_album import_list) \<Longrightarrow>
     distinct (map g_album (append_track artist album t import_list))"
proof (induction import_list)
  case Nil
  then show ?case by simp
next
  case (Cons item import_list)
  have "g_album item \<noteq> album \<Longrightarrow>
          g_album item \<notin> set (map g_album (append_track artist album t import_list))"
    using Cons.prems by (simp only: append_track_albums) auto
  with Cons show ?case by auto
qed

text \<open>
  C1. The claim fails on the code: the import list is searched by album alone (line 92).
  Two files tagged (Queen, Greatest Hits) and (ABBA, Greatest Hits) end in one group
  with the key (Queen, Greatest Hits), so the second member's own artist tag differs
  from the artist of its group.
\<close>

theorem scan_merges_artists:
  "scan False [\<lparr>e_path = ''q/1.flac'', e_is_file = True\<rparr>,
               \<lparr>e_path = ''a/1.flac'', e_is_file = True\<rparr>] (hits_state, []) =
     Inr (hits_state,
          [\<lparr>g_album = ''Greatest Hits'', g_artist = ''Queen'',
            g_tracks = [(Some ''Bohemian Rhapsody'', Some ''1'', ''q/1.flac''),
                        (Some ''SOS'', Some ''1'', ''a/1.flac'')]\<rparr>]) \<and>
   disk hits_state ''a/1.flac'' =
     Flac [''ARTIST'' \<mapsto> [''ABBA''], ''ALBUM'' \<mapsto> [''Greatest Hits''],
           ''TITLE'' \<mapsto> [''SOS''], ''TRACK'' \<mapsto> [''1'']] 200"
  by (simp add: scan_file_def path_eval hits_state_def hits_disk_def)

section \<open>Matching\<close>

text \<open>\<open>find\<close> returns the first element that satisfies the predicate.\<close>

lemma find_first_split:
  "find P xs = Some m \<longleftrightarrow> (\<exists>before after. xs = before @ m # after \<and> P m \<and> (\<forall>x\<in>set before. \<not> P x))"
proof (induction xs)
  case Nil
  then show ?case by simp
next
  case (Cons x xs)
  show ?case
  proof (cases "P x")
    case True
    have "(\<exists>before after. x # xs = before @ m # after \<and> P m \<and> (\<forall>y\<in>set before. \<not> P y)) \<longleftrightarrow> x = m"
    proof
      assume "\<exists>before after. x # xs = before @ m # after \<and> P m \<and> (\<forall>y\<in>set before. \<not> P y)"
      then obtain before after where s: "x # xs = before @ m # after" and n: "\<forall>y\<in>set before. \<not> P y"
        by blast
      show "x = m"
      proof (cases before)
        case Nil
        with s show ?thesis by simp
      next
        case (Cons b bs)
        with s n True show ?thesis by auto
      qed
    next
      assume "x = m"
      with True have "x # xs = [] @ m # xs \<and> P m \<and> (\<forall>y\<in>set []. \<not> P y)" by simp
      then show "\<exists>before after. x # xs = before @ m # after \<and> P m \<and> (\<forall>y\<in>set before. \<not> P y)"
        by blast
    qed
    with True show ?thesis by simp
  next
    case False
    have "(\<exists>before after. x # xs = before @ m # after \<and> P m \<and> (\<forall>y\<in>set before. \<not> P y)) \<longleftrightarrow>
          (\<exists>before after. xs = before @ m # after \<and> P m \<and> (\<forall>y\<in>set before. \<not> P y))"
    proof
      assume "\<exists>before after. x # xs = before @ m # after \<and> P m \<and> (\<forall>y\<in>set before. \<not> P y)"
      then obtain before after where s: "x # xs = before @ m # after" and pm: "P m"
        and n: "\<forall>y\<in>set before. \<not> P y"
        by blast
      show "\<exists>before after. xs = before @ m # after \<and> P m \<and> (\<forall>y\<in>set before. \<not> P y)"
      proof (cases before)
        case Nil
        with s pm False show ?thesis by simp
      next
        case (Cons b bs)
        with s n pm have "xs = bs @ m # after \<and> P m \<and> (\<forall>y\<in>set bs. \<not> P y)" by simp
        then show ?thesis by blast
      qed
    next
      assume "\<exists>before after. xs = before @ m # after \<and> P m \<and> (\<forall>y\<in>set before. \<not> P y)"
      then obtain before after where "xs = before @ m # after" "P m" "\<forall>y\<in>set before. \<not> P y"
        by blast
      with False have "x # xs = (x # before) @ m # after \<and> P m \<and> (\<forall>y\<in>set (x # before). \<not> P y)"
        by simp
      then show "\<exists>before after. x # xs = before @ m # after \<and> P m \<and> (\<forall>y\<in>set before. \<not> P y)"
        by blast
    qed
    with False Cons.IH show ?thesis by simp
  qed
qed

text \<open>
  C2, as amended. For a candidate whose title or position is a non-empty string, the
  matcher returns the record \<open>m\<close> exactly when the track list splits into records that
  satisfy neither predicate, then \<open>m\<close>, which satisfies one, then any records at all; it
  reports no match exactly when no record satisfies a predicate; and it never reports
  missing data.
\<close>

theorem match_track_first:
  assumes "truthy title \<or> truthy position"
  shows "(match_track title position tracks = Matched m \<longleftrightarrow>
           (\<exists>before after. tracks = before @ m # after \<and> matches title position m \<and>
              (\<forall>x\<in>set before. \<not> matches title position x))) \<and>
         (match_track title position tracks = No_match_found \<longleftrightarrow>
           (\<forall>x\<in>set tracks. \<not> matches title position x)) \<and>
         match_track title position tracks \<noteq> No_data_to_match"
proof -
  have a: "match_track title position tracks = Matched m \<longleftrightarrow>
             find (matches title position) tracks = Some m"
    using assms by (auto simp: match_track_def split: option.splits)
  have b: "match_track title position tracks = No_match_found \<longleftrightarrow>
             find (matches title position) tracks = None"
    using assms by (auto simp: match_track_def split: option.splits)
  have c: "match_track title position tracks \<noteq> No_data_to_match"
    using assms by (auto simp: match_track_def split: option.splits)
  show ?thesis
    unfolding a b using c by (auto simp add: find_first_split find_None_iff)
qed

text \<open>
  The records (A, 1) and (B, 2) with the candidate (B, "1"): the first record is chosen,
  by its position, although the second has the candidate's title.
\<close>

theorem match_track_first_witness:
  "truthy (Some ''B'') \<and>
   matches (Some ''B'') (Some ''1'')
     \<lparr>tr_disc = 1, tr_artist = [''X''], tr_title = ''A'', tr_position = 1\<rparr> \<and>
   match_track (Some ''B'') (Some ''1'') (ar_tracks demo_album) =
     Matched \<lparr>tr_disc = 1, tr_artist = [''X''], tr_title = ''A'', tr_position = 1\<rparr>"
proof -
  let ?a = "\<lparr>tr_disc = 1, tr_artist = [''X''], tr_title = ''A'', tr_position = 1\<rparr>"
  let ?b = "\<lparr>tr_disc = 1, tr_artist = [''X'', ''Z''], tr_title = ''B'', tr_position = 2\<rparr>"
  have h: "truthy (Some ''B'') \<or> truthy (Some ''1'')" by simp
  have m: "matches (Some ''B'') (Some ''1'') ?a"
    by (simp add: matches_def py_str_def digits.simps)
  have s: "ar_tracks demo_album = [] @ ?a # [?b]" by (simp add: demo_album_def)
  from m s have "\<exists>before after. ar_tracks demo_album = before @ ?a # after \<and>
      matches (Some ''B'') (Some ''1'') ?a \<and>
      (\<forall>x\<in>set before. \<not> matches (Some ''B'') (Some ''1'') x)"
    by (metis empty_iff list.set(1))
  with match_track_first [OF h, of "ar_tracks demo_album" ?a] m show ?thesis
    by simp
qed

text \<open>
  C2 as stated fails for a title that is present and empty, with no position: the first
  record has the same title, yet the matcher reports that there is no data to match.
\<close>

theorem match_track_empty_title_counterexample:
  "Some '''' \<noteq> (None :: string option) \<and>
   matches (Some '''') None \<lparr>tr_disc = 1, tr_artist = [''X''], tr_title = '''', tr_position = 1\<rparr> \<and>
   match_track (Some '''') None
     [\<lparr>tr_disc = 1, tr_artist = [''X''], tr_title = '''', tr_position = 1\<rparr>] = No_data_to_match"
  by (simp add: matches_def match_track_def)

section \<open>Resolving albums\<close>

lemma resolve_frame:
  "disk (fst (resolve ev st item)) = disk st \<and> console (fst (resolve ev st item)) = console st"
  by (simp add: resolve_def Let_def split: option.splits reply.splits)

lemma resolve_negative:
  assumes "find_response (cache st) (g_artist item) (g_album item) = None"
    and "post_find ev (length (requests st)) (g_artist item) (g_album item)
           (length (g_tracks item)) = Reply None"
  shows "resolve ev st item =
           (st\<lparr>requests := requests st @ [(g_artist item, g_album item, length (g_tracks item))]\<rparr>,
            Some None)"
  using assms by (simp add: resolve_def Let_def)

lemma resolve_failure:
  assumes "find_response (cache st) (g_artist item) (g_album item) = None"
    and "post_find ev (length (requests st)) (g_artist item) (g_album item)
           (length (g_tracks item)) = Transport_failure"
  shows "resolve ev st item =
           (st\<lparr>requests := requests st @ [(g_artist item, g_album item, length (g_tracks item))]\<rparr>,
            None)"
  using assms by (simp add: resolve_def Let_def)

lemma resolve_writes_positive:
  "cache (fst (resolve ev st item)) \<noteq> cache st \<Longrightarrow>
     \<exists>record. post_find ev (length (requests st)) (g_artist item) (g_album item)
                 (length (g_tracks item)) = Reply (Some record) \<and>
       cache (fst (resolve ev st item)) =
         (cache st)((g_artist item, g_album item) \<mapsto> Some record)"
  by (auto simp: resolve_def Let_def set_response_def split: option.splits reply.splits if_splits)

lemma process_group_negative:
  assumes "find_response (cache st) (g_artist item) (g_album item) = None"
    and "post_find ev (length (requests st)) (g_artist item) (g_album item)
           (length (g_tracks item)) = Reply None"
  shows "process_group ev lyrics bpm st item =
           Inr (st\<lparr>requests := requests st @ [(g_artist item, g_album item, length (g_tracks item))],
                   console := console st @
                     [Header (g_album item) (g_artist item) (length (g_tracks item)), Not_found]\<rparr>)"
proof -
  let ?st0 = "secho (Header (g_album item) (g_artist item) (length (g_tracks item))) st"
  have "resolve ev ?st0 item =
          (?st0\<lparr>requests := requests ?st0 @ [(g_artist item, g_album item, length (g_tracks item))]\<rparr>,
           Some None)"
    using assms by (intro resolve_negative) (simp_all add: secho_def)
  then show ?thesis
    by (simp add: process_group_def Let_def secho_def)
qed

lemma process_group_failure:
  assumes "find_response (cache st) (g_artist item) (g_album item) = None"
    and "post_find ev (length (requests st)) (g_artist item) (g_album item)
           (length (g_tracks item)) = Transport_failure"
  shows "process_group ev lyrics bpm st item =
           Inr (st\<lparr>requests := requests st @ [(g_artist item, g_album item, length (g_tracks item))],
                   console := console st @
                     [Header (g_album item) (g_artist item) (length (g_tracks item)), Failed_fetch]\<rparr>)"
proof -
  let ?st0 = "secho (Header (g_album item) (g_artist item) (length (g_tracks item))) st"
  have "resolve ev ?st0 item =
          (?st0\<lparr>requests := requests ?st0 @ [(g_artist item, g_album item, length (g_tracks item))]\<rparr>,
           None)"
    using assms by (intro resolve_failure) (simp_all add: secho_def)
  then show ?thesis
    by (simp add: process_group_def Let_def secho_def)
qed

lemma repeated_negative:
  assumes "\<forall>g\<in>set gs. g_artist g = artist \<and> g_album g = album"
    and "find_response (cache st) artist album = None"
    and "\<forall>n trackc. post_find ev n artist album trackc = Reply None"
  shows "process_groups ev lyrics bpm st gs =
           Inr (st\<lparr>requests := requests st @ map (\<lambda>g. (artist, album, length (g_tracks g))) gs,
                   console := console st @
                     concat (map (\<lambda>g. [Header album artist (length (g_tracks g)), Not_found]) gs)\<rparr>)"
  using assms
proof (induction gs arbitrary: st)
  case Nil
  then show ?case by simp
next
  case (Cons g gs)
  let ?st1 = "st\<lparr>requests := requests st @ [(artist, album, length (g_tracks g))],
                  console := console st @ [Header album artist (length (g_tracks g)), Not_found]\<rparr>"
  have k: "g_artist g = artist" "g_album g = album" using Cons.prems(1) by simp_all
  have step: "process_group ev lyrics bpm st g = Inr ?st1"
    using process_group_negative [of st g ev lyrics bpm] Cons.prems(2,3) k by simp
  have "process_groups ev lyrics bpm ?st1 gs =
          Inr (?st1\<lparr>requests := requests ?st1 @ map (\<lambda>g. (artist, album, length (g_tracks g))) gs,
                   console := console ?st1 @
                     concat (map (\<lambda>g. [Header album artist (length (g_tracks g)), Not_found]) gs)\<rparr>)"
    using Cons.prems by (intro Cons.IH) simp_all
  with step show ?case by simp
qed

text \<open>
  C4. When the cache holds nothing for (artist, album) and the remote service never
  finds that pair, resolving any sequence of groups with this key posts one request per
  group, reports each as not found, and leaves the cache and the disk as they were.
  Moreover a resolution changes the cache only if the remote service has answered with
  a record, and then by storing that record under the key of the group.
\<close>

theorem negative_lookup_not_cached:
  assumes "\<forall>g\<in>set gs. g_artist g = artist \<and> g_album g = album"
    and "find_response (cache st) artist album = None"
    and "\<forall>n trackc. post_find ev n artist album trackc = Reply None"
  shows "process_groups ev lyrics bpm st gs =
           Inr (st\<lparr>requests := requests st @ map (\<lambda>g. (artist, album, length (g_tracks g))) gs,
                   console := console st @
                     concat (map (\<lambda>g. [Header album artist (length (g_tracks g)), Not_found]) gs)\<rparr>) \<and>
         (cache (fst (resolve ev st' item)) \<noteq> cache st' \<longrightarrow>
            (\<exists>record. post_find ev (length (requests st')) (g_artist item) (g_album item)
                         (length (g_tracks item)) = Reply (Some record) \<and>
               cache (fst (resolve ev st' item)) =
                 (cache st')((g_artist item, g_album item) \<mapsto> Some record)))"
  using repeated_negative [OF assms] resolve_writes_positive [of ev st' item] by blast

text \<open>
  C5. On a cache miss answered by a transport failure, or by a response without a
  record, the group ends with the heading and one warning (failed to fetch, or not
  found) on the console and the request in the log; the disk and the cache are as
  before, no exception leaves the loop, and the remaining groups are processed from
  that state.
\<close>

theorem failed_group_is_skipped:
  assumes "find_response (cache st) (g_artist item) (g_album item) = None"
    and "post_find ev (length (requests st)) (g_artist item) (g_album item)
           (length (g_tracks item)) = answer"
    and "answer = Transport_failure \<or> answer = Reply None"
    and "st' = st\<lparr>requests := requests st @ [(g_artist item, g_album item, length (g_tracks item))],
                  console := console st @
                    [Header (g_album item) (g_artist item) (length (g_tracks item)),
                     if answer = Transport_failure then Failed_fetch else Not_found]\<rparr>"
  shows "process_group ev lyrics bpm st item = Inr st' \<and>
         disk st' = disk st \<and> cache st' = cache st \<and>
         process_groups ev lyrics bpm st (item # import_list) =
           process_groups ev lyrics bpm st' import_list"
proof -
  have "process_group ev lyrics bpm st item = Inr st'"
    using assms process_group_failure [of st item ev lyrics bpm]
      process_group_negative [of st item ev lyrics bpm]
    by auto
  then show ?thesis using assms(4) by simp
qed

lemma demo_cache:
  "cache demo_state = Map.empty \<and> requests demo_state = [] \<and> console demo_state = []"
  by (simp add: demo_state_def)

theorem negative_lookup_not_cached_witness:
  "process_groups demo_env False False demo_state [ghost_group, ghost_group] =
     Inr (demo_state\<lparr>requests := [(''Ghost'', ''Nothing'', 1), (''Ghost'', ''Nothing'', 1)],
                     console := [Header ''Nothing'' ''Ghost'' 1, Not_found,
                                 Header ''Nothing'' ''Ghost'' 1, Not_found]\<rparr>) \<and>
   cache (fst (resolve demo_env demo_state demo_group)) \<noteq> cache demo_state \<and>
   post_find demo_env 0 ''X'' ''Y'' 2 = Reply (Some demo_album) \<and>
   cache (fst (resolve demo_env demo_state demo_group)) = [(''X'', ''Y'') \<mapsto> Some demo_album]"
proof -
  have h1: "\<forall>g\<in>set [ghost_group, ghost_group]. g_artist g = ''Ghost'' \<and> g_album g = ''Nothing''"
    by (simp add: ghost_group_def)
  have h2: "find_response (cache demo_state) ''Ghost'' ''Nothing'' = None"
    by (simp add: find_response_def demo_state_def)
  have h3: "\<forall>n trackc. post_find demo_env n ''Ghost'' ''Nothing'' trackc = Reply None"
    by (simp add: demo_env_def)
  have c: "cache (fst (resolve demo_env demo_state demo_group)) \<noteq> cache demo_state"
    by (simp add: resolve_def Let_def demo_group_def demo_state_def demo_env_def
        find_response_def set_response_def)
  have k: "length (g_tracks ghost_group) = 1 \<and> g_artist demo_group = ''X'' \<and>
           g_album demo_group = ''Y'' \<and> length (g_tracks demo_group) = 2"
    by (simp add: ghost_group_def demo_group_def)
  have p: "post_find demo_env 0 ''X'' ''Y'' 2 = Reply (Some demo_album)"
    by (simp add: demo_env_def)
  show ?thesis
    using negative_lookup_not_cached
      [OF h1 h2 h3, of False False demo_state demo_group] c k p demo_cache
    by simp
qed

theorem failed_group_is_skipped_witness:
  "post_find demo_env 0 ''Nobody'' ''Elsewhere'' 1 = Transport_failure \<and>
   process_group demo_env False False demo_state offline_group =
     Inr (demo_state\<lparr>requests := [(''Nobody'', ''Elsewhere'', 1)],
                     console := [Header ''Elsewhere'' ''Nobody'' 1, Failed_fetch]\<rparr>) \<and>
   process_groups demo_env False False demo_state (offline_group # [demo_group]) =
     process_groups demo_env False False
       (demo_state\<lparr>requests := [(''Nobody'', ''Elsewhere'', 1)],
                   console := [Header ''Elsewhere'' ''Nobody'' 1, Failed_fetch]\<rparr>) [demo_group]"
proof -
  let ?st' = "demo_state\<lparr>requests := [(''Nobody'', ''Elsewhere'', 1)],
                   console := [Header ''Elsewhere'' ''Nobody'' 1, Failed_fetch]\<rparr>"
  have h1: "find_response (cache demo_state) (g_artist offline_group) (g_album offline_group) = None"
    by (simp add: find_response_def demo_state_def)
  have h2: "post_find demo_env (length (requests demo_state)) (g_artist offline_group)
      (g_album offline_group) (length (g_tracks offline_group)) = Transport_failure"
    by (simp add: demo_env_def offline_group_def)
  have h3: "Transport_failure = Transport_failure \<or> Transport_failure = Reply None" by simp
  have h4: "?st' = demo_state\<lparr>requests := requests demo_state @
        [(g_artist offline_group, g_album offline_group, length (g_tracks offline_group))],
      console := console demo_state @
        [Header (g_album offline_group) (g_artist offline_group) (length (g_tracks offline_group)),
         if Transport_failure = Transport_failure then Failed_fetch else Not_found]\<rparr>"
    by (simp add: demo_state_def offline_group_def)
  have p: "post_find demo_env 0 ''Nobody'' ''Elsewhere'' 1 = Transport_failure"
    by (simp add: demo_env_def)
  show ?thesis
    using failed_group_is_skipped [OF h1 h2 h3 h4, of False False "[demo_group]"] p
    by simp
qed

section \<open>Sorting the candidates\<close>

lemma those_None_iff: "those (map f xs) = None \<longleftrightarrow> (\<exists>x\<in>set xs. f x = None)"
  by (induction xs) (auto split: option.splits)

lemma those_map_Some:
  "(\<forall>x\<in>set xs. f x \<noteq> None) \<Longrightarrow> those (map f xs) = Some (map (\<lambda>x. the (f x)) xs)"
  by (induction xs) auto

text \<open>Sorting the pairs (key, tuple) by the key sorts the tuples by their key.\<close>

lemma insort_decorated:
  "\<forall>p\<in>set ys. fst p = f (snd p) \<Longrightarrow>
     map snd (insort_key fst (f x, x) ys) = insort_key f x (map snd ys)"
  by (induction ys) auto

lemma zip_decorated: "\<forall>p\<in>set (zip (map f xs) xs). fst p = f (snd p)"
  by (induction xs) auto

lemma sort_decorated: "map snd (sort_key fst (zip (map f xs) xs)) = sort_key f xs"
proof (induction xs)
  case Nil
  then show ?case by simp
next
  case (Cons x xs)
  have "\<forall>p\<in>set (sort_key fst (zip (map f xs) xs)). fst p = f (snd p)"
    using zip_decorated [of f xs] by simp
  then have "map snd (insort_key fst (f x, x) (sort_key fst (zip (map f xs) xs))) =
        insort_key f x (map snd (sort_key fst (zip (map f xs) xs)))"
    by (rule insort_decorated)
  with Cons.IH show ?case by simp
qed

lemma sorted_tracks_Inr:
  assumes "\<forall>x\<in>set tracks. sort_position x \<noteq> None"
  shows "sorted_tracks tracks = Inr (sort_key (\<lambda>x. the (sort_position x)) tracks)"
proof -
  have "those (map sort_position tracks) = Some (map (\<lambda>x. the (sort_position x)) tracks)"
    using assms by (rule those_map_Some)
  then show ?thesis
    by (simp add: sorted_tracks_def sort_decorated)
qed

lemma sorted_tracks_Inl:
  "sorted_tracks tracks = Inl ValueError \<longleftrightarrow> (\<exists>x\<in>set tracks. sort_position x = None)"
proof (cases "\<exists>x\<in>set tracks. sort_position x = None")
  case True
  then have "those (map sort_position tracks) = None" by (simp only: those_None_iff)
  with True show ?thesis by (simp add: sorted_tracks_def)
next
  case False
  then have "\<forall>x\<in>set tracks. sort_position x \<noteq> None" by simp
  from sorted_tracks_Inr [OF this] False show ?thesis by simp
qed

lemma sorted_tracks_set: "sorted_tracks tracks = Inr ts \<Longrightarrow> set ts = set tracks"
proof -
  assume a: "sorted_tracks tracks = Inr ts"
  then have "\<not> (\<exists>x\<in>set tracks. sort_position x = None)"
    using sorted_tracks_Inl [of tracks] by auto
  then have "\<forall>x\<in>set tracks. sort_position x \<noteq> None" by simp
  from sorted_tracks_Inr [OF this] a show ?thesis by auto
qed

lemma process_group_sorted:
  assumes "resolve ev (secho (Header (g_album item) (g_artist item) (length (g_tracks item))) st) item
           = (st1, Some (Some response))"
    and "\<forall>x\<in>set (g_tracks item). sort_position x \<noteq> None"
  shows "process_group ev lyrics bpm st item =
           process_files ev lyrics bpm response st1
             (sort_key (\<lambda>x. the (sort_position x)) (g_tracks item))"
  using assms(1) sorted_tracks_Inr [OF assms(2)] by (simp add: process_group_def Let_def)

text \<open>More than 4300 digits are refused whatever they are.\<close>

lemma parse_body_limit: "4300 < length (filter is_digit body) \<Longrightarrow> parse_body body = None"
  by (simp add: parse_body_def)

text \<open>
  C8. The sort key of a tuple is 0 for an absent position and \<open>int\<close> of the position
  otherwise. If the remote service (or the cache) has resolved a group and one of its
  tuples has a position that \<open>int\<close> rejects, sorting raises ValueError: the group and the
  whole loop over the groups end with that exception, in the state reached by the
  resolution, before any message about a file and with the disk untouched. Sorting
  raises exactly when some position is rejected; otherwise it returns the tuples in
  stable ascending order of their keys, and the files of a resolved group are processed
  in that order.
\<close>

theorem unparsable_position_aborts:
  assumes "(title, Some p, file) \<in> set (g_tracks item)"
    and "py_int p = None"
    and "resolve ev (secho (Header (g_album item) (g_artist item) (length (g_tracks item))) st) item
           = (st1, Some (Some response))"
  shows "sorted_tracks (g_tracks item) = Inl ValueError \<and>
         process_group ev lyrics bpm st item = Inl (ValueError, st1) \<and>
         process_groups ev lyrics bpm st (item # import_list) = Inl (ValueError, st1) \<and>
         disk st1 = disk st \<and>
         console st1 =
           console st @ [Header (g_album item) (g_artist item) (length (g_tracks item))] \<and>
         sort_position (t, None, f) = Some 0 \<and>
         sort_position (t, Some q, f) = py_int q \<and>
         (sorted_tracks tracks = Inl ValueError \<longleftrightarrow>
            (\<exists>x\<in>set tracks. sort_position x = None)) \<and>
         ((\<forall>x\<in>set tracks. sort_position x \<noteq> None) \<longrightarrow>
            sorted_tracks tracks = Inr (sort_key (\<lambda>x. the (sort_position x)) tracks)) \<and>
         (resolve ev
            (secho (Header (g_album item2) (g_artist item2) (length (g_tracks item2))) st2) item2
            = (st3, Some (Some response2)) \<and>
          (\<forall>x\<in>set (g_tracks item2). sort_position x \<noteq> None) \<longrightarrow>
            process_group ev lyrics bpm st2 item2 =
              process_files ev lyrics bpm response2 st3
                (sort_key (\<lambda>x. the (sort_position x)) (g_tracks item2)))"
proof -
  have "sort_position (title, Some p, file) = None"
    using assms(2) by (simp add: sort_position_def)
  with assms(1) have "those (map sort_position (g_tracks item)) = None"
    unfolding those_None_iff by blast
  then have s: "sorted_tracks (g_tracks item) = Inl ValueError"
    by (simp add: sorted_tracks_def)
  have g: "process_group ev lyrics bpm st item = Inl (ValueError, st1)"
    using assms(3) s by (simp add: process_group_def Let_def)
  have gs: "process_groups ev lyrics bpm st (item # import_list) = Inl (ValueError, st1)"
    using g by simp
  have f: "disk st1 = disk st \<and>
           console st1 =
             console st @ [Header (g_album item) (g_artist item) (length (g_tracks item))]"
    using resolve_frame
      [of ev "secho (Header (g_album item) (g_artist item) (length (g_tracks item))) st" item]
      assms(3)
    by (simp add: secho_def)
  have k: "sort_position (t, None, f) = Some 0 \<and> sort_position (t, Some q, f) = py_int q"
    by (simp add: sort_position_def)
  have ok: "(\<forall>x\<in>set tracks. sort_position x \<noteq> None) \<longrightarrow>
            sorted_tracks tracks = Inr (sort_key (\<lambda>x. the (sort_position x)) tracks)"
    using sorted_tracks_Inr by blast
  have run: "resolve ev
            (secho (Header (g_album item2) (g_artist item2) (length (g_tracks item2))) st2) item2
            = (st3, Some (Some response2)) \<and>
          (\<forall>x\<in>set (g_tracks item2). sort_position x \<noteq> None) \<longrightarrow>
            process_group ev lyrics bpm st2 item2 =
              process_files ev lyrics bpm response2 st3
                (sort_key (\<lambda>x. the (sort_position x)) (g_tracks item2))"
    using process_group_sorted by blast
  show ?thesis
    by (intro conjI s g gs conjunct1 [OF f] conjunct2 [OF f] conjunct1 [OF k] conjunct2 [OF k]
        sorted_tracks_Inl ok run)
qed

lemma demo_resolve_bad:
  "resolve demo_env
     (secho (Header (g_album bad_group) (g_artist bad_group) (length (g_tracks bad_group)))
        demo_state) bad_group = (demo_state_resolved, Some (Some demo_album))"
  by (simp add: resolve_def Let_def bad_group_def demo_state_def demo_env_def secho_def
      find_response_def set_response_def demo_state_resolved_def)

lemma demo_resolve_shuffled:
  "resolve demo_env
     (secho (Header (g_album shuffled_group) (g_artist shuffled_group)
               (length (g_tracks shuffled_group)))
        demo_state) shuffled_group = (demo_state_resolved, Some (Some demo_album))"
  by (simp add: resolve_def Let_def shuffled_group_def demo_state_def demo_env_def secho_def
      find_response_def set_response_def demo_state_resolved_def)

lemma shuffled_keys:
  "sort_position (Some ''B'', Some ''2'', ''m/2.flac'') = Some 2 \<and>
   sort_position (Some ''A'', None, ''m/1.flac'') = Some 0"
  by (simp add: sort_position_def py_int_eval)

theorem unparsable_position_aborts_witness:
  "py_int ''1/12'' = None \<and> py_int ''A1'' = None \<and> py_int [] = None \<and>
   py_int [CHR 0x1C, CHR ''1''] = None \<and>
   sort_position (Some ''A'', None, ''m/1.flac'') = Some 0 \<and>
   sorted_tracks (g_tracks bad_group) = Inl ValueError \<and>
   process_group demo_env False False demo_state bad_group =
     Inl (ValueError, demo_state_resolved) \<and>
   process_groups demo_env False False demo_state (bad_group # [ghost_group]) =
     Inl (ValueError, demo_state_resolved) \<and>
   disk demo_state_resolved = disk demo_state \<and>
   console demo_state_resolved = [Header ''Y'' ''X'' 2] \<and>
   sorted_tracks (g_tracks shuffled_group) =
     Inr [(Some ''A'', None, ''m/1.flac''), (Some ''B'', Some ''2'', ''m/2.flac'')] \<and>
   process_group demo_env False False demo_state shuffled_group =
     process_files demo_env False False demo_album demo_state_resolved
       [(Some ''A'', None, ''m/1.flac''), (Some ''B'', Some ''2'', ''m/2.flac'')]"
proof -
  have h1: "(Some ''B'', Some ''1/12'', ''m/2.flac'') \<in> set (g_tracks bad_group)"
    by (simp add: bad_group_def)
  have h2: "py_int ''1/12'' = None" by (simp add: py_int_eval)
  have e: "py_int ''A1'' = None \<and> py_int [] = None \<and> py_int [CHR 0x1C, CHR ''1''] = None"
    by (simp add: py_int_eval)
  have k: "g_album bad_group = ''Y'' \<and> g_artist bad_group = ''X'' \<and>
           length (g_tracks bad_group) = 2 \<and> console demo_state = []"
    by (simp add: bad_group_def demo_state_def)
  have t: "g_tracks shuffled_group =
             [(Some ''B'', Some ''2'', ''m/2.flac''), (Some ''A'', None, ''m/1.flac'')]"
    by (simp add: shuffled_group_def)
  have p: "\<forall>x\<in>set (g_tracks shuffled_group). sort_position x \<noteq> None"
    unfolding t using shuffled_keys by simp
  have o: "sort_key (\<lambda>x. the (sort_position x)) (g_tracks shuffled_group) =
             [(Some ''A'', None, ''m/1.flac''), (Some ''B'', Some ''2'', ''m/2.flac'')]"
    unfolding t using shuffled_keys by simp
  note u = unparsable_position_aborts
      [OF h1 h2 demo_resolve_bad, of False False "[ghost_group]" "Some ''A''" "''m/1.flac''"
        "''1''" "g_tracks shuffled_group" shuffled_group demo_state demo_state_resolved
        demo_album]
  show ?thesis
    using u h2 e k p o demo_resolve_shuffled by simp
qed

section \<open>Writing the tags\<close>

text \<open>The five ways in which one iteration over a tuple can end.\<close>

lemma process_file_cases:
  "process_file ev lyrics bpm r st (title, position, path) = res \<Longrightarrow>
     (match_track title position (ar_tracks r) = No_data_to_match \<and>
        res = Inr (secho (No_data (path_name path)) st)) \<or>
     (match_track title position (ar_tracks r) = No_match_found \<and>
        res = Inr (secho (No_match (path_name path)) st)) \<or>
     (\<exists>m. match_track title position (ar_tracks r) = Matched m \<and> disk st path = Corrupt \<and>
        res = Inl (MutagenError, st)) \<or>
     (\<exists>m metadata len e. match_track title position (ar_tracks r) = Matched m \<and>
        disk st path = Flac metadata len \<and>
        assemble ev lyrics bpm r m path len metadata = Inl e \<and> res = Inl (e, st)) \<or>
     (\<exists>m metadata len md. match_track title position (ar_tracks r) = Matched m \<and>
        disk st path = Flac metadata len \<and>
        assemble ev lyrics bpm r m path len metadata = Inr md \<and>
        res = Inr (secho (Updated (path_name path)) (st\<lparr>disk := (disk st)(path := Flac md len)\<rparr>)))"
  by (auto simp: process_file_def split: match_result.splits file_content.splits sum.splits)

lemma assemble_clear:
  "assemble ev lyrics bpm r m path len metadata = assemble ev lyrics bpm r m path len Map.empty"
  by (simp add: assemble_def clear_def)

lemma assemble_enriched:
  assumes "assemble ev lyrics bpm r m path len metadata = Inr md"
  shows "(bpm \<longrightarrow> (\<exists>n. bpm_tool ev path = Some n \<and> md ''BPM'' = Some [py_str n])) \<and>
         (lyrics \<longrightarrow> (\<exists>a as. ar_artist r = a # as \<and>
            lrclib_get ev (tr_title m) a (ar_album r) len \<noteq> Lyrics_failure))"
  using assms
  by (auto simp: assemble_def fetch_lyrics_def calculate_bpm_def
      split: sum.splits if_splits list.splits lyrics_reply.splits option.splits)

text \<open>
  C6. An iteration that ends with an exception leaves the whole state, and so the disk,
  as it was. One that ends normally has either left the disk as it was or replaced the
  tags of the one file by the mapping that \<open>assemble\<close> returned, that is after the
  lyrics and BPM steps have both returned. If the lyrics step or the BPM step raises
  for a matched, readable file, the iteration ends with that exception in the unchanged
  state. A mapping that \<open>assemble\<close> returns holds the BPM value when BPM is enabled, and
  with lyrics enabled the provider has answered.
\<close>

theorem save_is_all_or_nothing:
  "(process_file ev lyrics bpm r st (title, position, path) = Inl (e, st') \<longrightarrow> st' = st) \<and>
   (process_file ev lyrics bpm r st (title, position, path) = Inr st' \<longrightarrow>
      disk st' = disk st \<or>
      (\<exists>m metadata len md. match_track title position (ar_tracks r) = Matched m \<and>
         disk st path = Flac metadata len \<and>
         assemble ev lyrics bpm r m path len metadata = Inr md \<and>
         disk st' = (disk st)(path := Flac md len))) \<and>
   (match_track title position (ar_tracks r) = Matched m \<and>
    disk st path = Flac metadata len \<and>
    (fetch_lyrics ev lyrics r m len (write_date r (write_fields r m (clear metadata))) = Inl e \<or>
     (\<exists>md1. fetch_lyrics ev lyrics r m len (write_date r (write_fields r m (clear metadata)))
              = Inr md1 \<and>
            calculate_bpm ev bpm path md1 = Inl e)) \<longrightarrow>
      process_file ev lyrics bpm r st (title, position, path) = Inl (e, st)) \<and>
   (assemble ev lyrics bpm r m path len metadata = Inr md \<longrightarrow>
      (bpm \<longrightarrow> (\<exists>n. bpm_tool ev path = Some n \<and> md ''BPM'' = Some [py_str n])) \<and>
      (lyrics \<longrightarrow> (\<exists>a as. ar_artist r = a # as \<and>
         lrclib_get ev (tr_title m) a (ar_album r) len \<noteq> Lyrics_failure)))"
proof -
  have a: "process_file ev lyrics bpm r st (title, position, path) = Inl (e, st') \<longrightarrow> st' = st"
  proof
    assume h: "process_file ev lyrics bpm r st (title, position, path) = Inl (e, st')"
    from process_file_cases [OF h] show "st' = st" by auto
  qed
  have b: "process_file ev lyrics bpm r st (title, position, path) = Inr st' \<longrightarrow>
      disk st' = disk st \<or>
      (\<exists>m metadata len md. match_track title position (ar_tracks r) = Matched m \<and>
         disk st path = Flac metadata len \<and>
         assemble ev lyrics bpm r m path len metadata = Inr md \<and>
         disk st' = (disk st)(path := Flac md len))"
  proof
    assume h: "process_file ev lyrics bpm r st (title, position, path) = Inr st'"
    from process_file_cases [OF h] show "disk st' = disk st \<or>
      (\<exists>m metadata len md. match_track title position (ar_tracks r) = Matched m \<and>
         disk st path = Flac metadata len \<and>
         assemble ev lyrics bpm r m path len metadata = Inr md \<and>
         disk st' = (disk st)(path := Flac md len))"
      by (auto simp: secho_def)
  qed
  have c: "match_track title position (ar_tracks r) = Matched m \<and>
    disk st path = Flac metadata len \<and>
    (fetch_lyrics ev lyrics r m len (write_date r (write_fields r m (clear metadata))) = Inl e \<or>
     (\<exists>md1. fetch_lyrics ev lyrics r m len (write_date r (write_fields r m (clear metadata)))
              = Inr md1 \<and>
            calculate_bpm ev bpm path md1 = Inl e)) \<longrightarrow>
      process_file ev lyrics bpm r st (title, position, path) = Inl (e, st)"
    by (auto simp: process_file_def assemble_def)
  have d: "assemble ev lyrics bpm r m path len metadata = Inr md \<longrightarrow>
      (bpm \<longrightarrow> (\<exists>n. bpm_tool ev path = Some n \<and> md ''BPM'' = Some [py_str n])) \<and>
      (lyrics \<longrightarrow> (\<exists>a as. ar_artist r = a # as \<and>
         lrclib_get ev (tr_title m) a (ar_album r) len \<noteq> Lyrics_failure))"
    using assemble_enriched by blast
  from a b c d show ?thesis by blast
qed

lemma demo_match_A:
  "match_track (Some ''A'') (Some ''1'') (ar_tracks demo_album) = Matched demo_track_A"
  by (simp add: match_track_def matches_def demo_album_def demo_track_A_def)

lemma demo_disk_A: "disk demo_state ''m/1.flac'' = Flac demo_tags_A 180"
  by (simp add: demo_state_def demo_disk_def demo_tags_A_def)

lemma demo_lyrics_fail:
  "fetch_lyrics demo_env True demo_album demo_track_A 180
     (write_date demo_album (write_fields demo_album demo_track_A (clear demo_tags_A)))
     = Inl LyricsError"
  by (simp add: fetch_lyrics_def demo_env_def demo_album_def demo_track_A_def)

lemma demo_bpm_fail:
  "\<exists>md1. fetch_lyrics demo_env False demo_album demo_track_A 180
     (write_date demo_album (write_fields demo_album demo_track_A (clear demo_tags_A)))
     = Inr md1 \<and> calculate_bpm demo_env True ''m/1.flac'' md1 = Inl BpmError"
  by (simp add: fetch_lyrics_def calculate_bpm_def demo_env_def)

theorem save_is_all_or_nothing_witness:
  "match_track (Some ''A'') (Some ''1'') (ar_tracks demo_album) = Matched demo_track_A \<and>
   disk demo_state ''m/1.flac'' = Flac demo_tags_A 180 \<and>
   fetch_lyrics demo_env True demo_album demo_track_A 180
     (write_date demo_album (write_fields demo_album demo_track_A (clear demo_tags_A)))
     = Inl LyricsError \<and>
   process_file demo_env True False demo_album demo_state (Some ''A'', Some ''1'', ''m/1.flac'') =
     Inl (LyricsError, demo_state) \<and>
   process_file demo_env False True demo_album demo_state (Some ''A'', Some ''1'', ''m/1.flac'') =
     Inl (BpmError, demo_state) \<and>
   process_file demo_env False True demo_album demo_state (Some ''B'', Some ''2'', ''m/2.flac'') =
     Inr demo_state_B \<and>
   disk demo_state_B = (disk demo_state)(''m/2.flac'' := Flac demo_tags_B 200) \<and>
   demo_tags_B ''BPM'' = Some [''120'']"
proof -
  have l: "process_file demo_env True False demo_album demo_state
             (Some ''A'', Some ''1'', ''m/1.flac'') = Inl (LyricsError, demo_state)"
    using save_is_all_or_nothing
      [where ev = demo_env and lyrics = True and bpm = False and r = demo_album
        and st = demo_state and title = "Some ''A''" and position = "Some ''1''"
        and path = "''m/1.flac''" and m = demo_track_A and metadata = demo_tags_A
        and len = 180 and e = LyricsError]
      demo_match_A demo_disk_A demo_lyrics_fail
    by blast
  have b: "process_file demo_env False True demo_album demo_state
             (Some ''A'', Some ''1'', ''m/1.flac'') = Inl (BpmError, demo_state)"
    using save_is_all_or_nothing
      [where ev = demo_env and lyrics = False and bpm = True and r = demo_album
        and st = demo_state and title = "Some ''A''" and position = "Some ''1''"
        and path = "''m/1.flac''" and m = demo_track_A and metadata = demo_tags_A
        and len = 180 and e = BpmError]
      demo_match_A demo_disk_A demo_bpm_fail
    by blast
  have d: "disk demo_state_B = (disk demo_state)(''m/2.flac'' := Flac demo_tags_B 200) \<and>
           demo_tags_B ''BPM'' = Some [''120'']"
    by (simp add: demo_state_B_def demo_state_def demo_tags_B_def)
  from l b d demo_match_A demo_disk_A demo_lyrics_fail demo_process_B show ?thesis
    by simp
qed

text \<open>The mapping built in memory, step by step.\<close>

lemma write_fields_clear:
  "write_fields r m (clear metadata) =
     set_tag ''MUSICBRAINZ_ALBUMARTISTID'' [ar_ids_artist r]
      (set_tag ''MUSICBRAINZ_ALBUMID'' [ar_ids_album r]
        (set_tag ''ALBUMARTIST'' (ar_artist r)
          (set_tag ''ARTIST'' (tr_artist m)
            (set_tag ''TITLE'' [tr_title m]
              (set_tag ''TRACK'' [py_str (tr_position m)]
                (set_tag ''ALBUM'' [ar_album r]
                  (set_tag ''DISC'' [py_str (tr_disc m)] Map.empty)))))))"
  by (simp add: write_fields_def field_index_def clear_def)

lemma set_tag_apply:
  "set_tag field values md k =
     (if k = field then (if values = [] then None else Some values) else md k)"
  by (simp add: set_tag_def)

lemma fixed_values:
  "write_fields r m (clear metadata) ''DISC'' = Some [py_str (tr_disc m)] \<and>
   write_fields r m (clear metadata) ''ALBUM'' = Some [ar_album r] \<and>
   write_fields r m (clear metadata) ''TRACK'' = Some [py_str (tr_position m)] \<and>
   write_fields r m (clear metadata) ''TITLE'' = Some [tr_title m] \<and>
   write_fields r m (clear metadata) ''ARTIST'' =
     (if tr_artist m = [] then None else Some (tr_artist m)) \<and>
   write_fields r m (clear metadata) ''ALBUMARTIST'' =
     (if ar_artist r = [] then None else Some (ar_artist r)) \<and>
   write_fields r m (clear metadata) ''MUSICBRAINZ_ALBUMID'' = Some [ar_ids_album r] \<and>
   write_fields r m (clear metadata) ''MUSICBRAINZ_ALBUMARTISTID'' = Some [ar_ids_artist r]"
  unfolding write_fields_clear by (simp add: set_tag_apply)

lemma other_values:
  "k \<notin> fixed_fields \<Longrightarrow> write_fields r m (clear metadata) k = None"
  unfolding write_fields_clear by (simp add: set_tag_apply fixed_fields_def)

lemma write_date_values:
  "write_date r md ''YEAR'' =
     (case ar_date r of None \<Rightarrow> md ''YEAR''
      | Some d \<Rightarrow> Some [takeWhile (\<lambda>c. c \<noteq> CHR ''-'') d]) \<and>
   write_date r md ''DATE'' = (case ar_date r of None \<Rightarrow> md ''DATE'' | Some d \<Rightarrow> Some [d])"
  by (cases "ar_date r") (simp_all add: write_date_def)

lemma write_date_other:
  "k \<noteq> ''YEAR'' \<Longrightarrow> k \<noteq> ''DATE'' \<Longrightarrow> write_date r md k = md k"
  by (cases "ar_date r") (simp_all add: write_date_def)

lemma fetch_lyrics_frame:
  assumes "fetch_lyrics ev lyrics r m len md0 = Inr md1"
  shows "(\<forall>k. k \<noteq> ''LYRICS'' \<longrightarrow> md1 k = md0 k) \<and>
         (if lyrics
          then \<exists>a as. ar_artist r = a # as \<and>
                 lrclib_get ev (tr_title m) a (ar_album r) len \<noteq> Lyrics_failure \<and>
                 md1 ''LYRICS'' =
                   (case lrclib_get ev (tr_title m) a (ar_album r) len of
                      Lyrics synced plain \<Rightarrow>
                        (case (if truthy synced then synced else plain) of
                           None \<Rightarrow> md0 ''LYRICS''
                         | Some final_lyrics \<Rightarrow> Some [final_lyrics])
                    | _ \<Rightarrow> md0 ''LYRICS'')
          else md1 ''LYRICS'' = md0 ''LYRICS'')"
  using assms
  by (auto simp: fetch_lyrics_def
      split: if_splits list.splits lyrics_reply.splits option.splits)

lemma calculate_bpm_frame:
  assumes "calculate_bpm ev bpm path md1 = Inr md2"
  shows "(\<forall>k. k \<noteq> ''BPM'' \<longrightarrow> md2 k = md1 k) \<and>
         (if bpm then \<exists>n. bpm_tool ev path = Some n \<and> md2 ''BPM'' = Some [py_str n]
          else md2 ''BPM'' = md1 ''BPM'')"
  using assms by (auto simp: calculate_bpm_def split: if_splits option.splits)

lemma assemble_shape:
  "assemble ev lyrics bpm r m path len metadata = Inr md \<Longrightarrow>
     \<exists>md1 md2. fetch_lyrics ev lyrics r m len (write_date r (write_fields r m (clear metadata)))
                  = Inr md1 \<and>
       calculate_bpm ev bpm path md1 = Inr md2 \<and> md = md2(''PIZZA'' \<mapsto> [version ev])"
  by (auto simp: assemble_def split: sum.splits)

lemma assemble_untouched:
  assumes "assemble ev lyrics bpm r m path len metadata = Inr md"
    and "k \<noteq> ''PIZZA''" and "k \<noteq> ''BPM''" and "k \<noteq> ''LYRICS''"
    and "k \<noteq> ''YEAR''" and "k \<noteq> ''DATE''"
  shows "md k = write_fields r m (clear metadata) k"
proof -
  let ?md0 = "write_date r (write_fields r m (clear metadata))"
  from assemble_shape [OF assms(1)] obtain md1 md2 where
    l: "fetch_lyrics ev lyrics r m len ?md0 = Inr md1" and
    b: "calculate_bpm ev bpm path md1 = Inr md2" and
    p: "md = md2(''PIZZA'' \<mapsto> [version ev])"
    by blast
  have "md k = md2 k" using p assms(2) by simp
  also have "md2 k = md1 k" using calculate_bpm_frame [OF b] assms(3) by simp
  also have "md1 k = ?md0 k" using fetch_lyrics_frame [OF l] assms(4) by simp
  also have "?md0 k = write_fields r m (clear metadata) k"
    using assms(5,6) by (rule write_date_other)
  finally show ?thesis .
qed

lemma assemble_year_date:
  assumes "assemble ev lyrics bpm r m path len metadata = Inr md"
  shows "md ''YEAR'' = map_option (\<lambda>d. [takeWhile (\<lambda>c. c \<noteq> CHR ''-'') d]) (ar_date r) \<and>
         md ''DATE'' = map_option (\<lambda>d. [d]) (ar_date r)"
proof -
  let ?md0f = "write_fields r m (clear metadata)"
  let ?md0 = "write_date r ?md0f"
  from assemble_shape [OF assms(1)] obtain md1 md2 where
    l: "fetch_lyrics ev lyrics r m len ?md0 = Inr md1" and
    b: "calculate_bpm ev bpm path md1 = Inr md2" and
    p: "md = md2(''PIZZA'' \<mapsto> [version ev])"
    by blast
  have y0: "?md0f ''YEAR'' = None" by (rule other_values) (simp add: fixed_fields_def)
  have d0: "?md0f ''DATE'' = None" by (rule other_values) (simp add: fixed_fields_def)
  have "md ''YEAR'' = md2 ''YEAR''" using p by simp
  also have "\<dots> = md1 ''YEAR''" using calculate_bpm_frame [OF b] by simp
  also have "\<dots> = ?md0 ''YEAR''" using fetch_lyrics_frame [OF l] by simp
  finally have y: "md ''YEAR'' = ?md0 ''YEAR''" .
  have "md ''DATE'' = md2 ''DATE''" using p by simp
  also have "\<dots> = md1 ''DATE''" using calculate_bpm_frame [OF b] by simp
  also have "\<dots> = ?md0 ''DATE''" using fetch_lyrics_frame [OF l] by simp
  finally have d: "md ''DATE'' = ?md0 ''DATE''" .
  show ?thesis
    unfolding y d using write_date_values [of r ?md0f] y0 d0
    by (cases "ar_date r") simp_all
qed

lemma assemble_lyrics:
  assumes "assemble ev lyrics bpm r m path len metadata = Inr md"
  shows "if lyrics
         then \<exists>a as. ar_artist r = a # as \<and>
                lrclib_get ev (tr_title m) a (ar_album r) len \<noteq> Lyrics_failure \<and>
                md ''LYRICS'' =
                  (case lrclib_get ev (tr_title m) a (ar_album r) len of
                     Lyrics synced plain \<Rightarrow>
                       map_option (\<lambda>l. [l]) (if truthy synced then synced else plain)
                   | _ \<Rightarrow> None)
         else md ''LYRICS'' = None"
proof -
  let ?md0f = "write_fields r m (clear metadata)"
  let ?md0 = "write_date r ?md0f"
  from assemble_shape [OF assms(1)] obtain md1 md2 where
    l: "fetch_lyrics ev lyrics r m len ?md0 = Inr md1" and
    b: "calculate_bpm ev bpm path md1 = Inr md2" and
    p: "md = md2(''PIZZA'' \<mapsto> [version ev])"
    by blast
  have "?md0f ''LYRICS'' = None" by (rule other_values) (simp add: fixed_fields_def)
  moreover have "?md0 ''LYRICS'' = ?md0f ''LYRICS''" by (rule write_date_other) simp_all
  ultimately have l0: "?md0 ''LYRICS'' = None" by simp
  have "md ''LYRICS'' = md2 ''LYRICS''" using p by simp
  also have "\<dots> = md1 ''LYRICS''" using calculate_bpm_frame [OF b] by simp
  finally have ly: "md ''LYRICS'' = md1 ''LYRICS''" .
  show ?thesis
  proof (cases lyrics)
    case False
    then show ?thesis using fetch_lyrics_frame [OF l] l0 ly by simp
  next
    case True
    with fetch_lyrics_frame [OF l] obtain a as where
      a: "ar_artist r = a # as" and
      f: "lrclib_get ev (tr_title m) a (ar_album r) len \<noteq> Lyrics_failure" and
      v: "md1 ''LYRICS'' =
            (case lrclib_get ev (tr_title m) a (ar_album r) len of
               Lyrics synced plain \<Rightarrow>
                 (case (if truthy synced then synced else plain) of
                    None \<Rightarrow> ?md0 ''LYRICS''
                  | Some final_lyrics \<Rightarrow> Some [final_lyrics])
             | _ \<Rightarrow> ?md0 ''LYRICS'')"
      by auto
    have "md ''LYRICS'' =
            (case lrclib_get ev (tr_title m) a (ar_album r) len of
               Lyrics synced plain \<Rightarrow>
                 map_option (\<lambda>l. [l]) (if truthy synced then synced else plain)
             | _ \<Rightarrow> None)"
      unfolding ly v l0 by (simp split: lyrics_reply.splits option.splits)
    with a f True show ?thesis by auto
  qed
qed

lemma assemble_bpm:
  assumes "assemble ev lyrics bpm r m path len metadata = Inr md"
  shows "if bpm then \<exists>n. bpm_tool ev path = Some n \<and> md ''BPM'' = Some [py_str n]
         else md ''BPM'' = None"
proof -
  let ?md0f = "write_fields r m (clear metadata)"
  let ?md0 = "write_date r ?md0f"
  from assemble_shape [OF assms(1)] obtain md1 md2 where
    l: "fetch_lyrics ev lyrics r m len ?md0 = Inr md1" and
    b: "calculate_bpm ev bpm path md1 = Inr md2" and
    p: "md = md2(''PIZZA'' \<mapsto> [version ev])"
    by blast
  have "?md0f ''BPM'' = None" by (rule other_values) (simp add: fixed_fields_def)
  moreover have "?md0 ''BPM'' = ?md0f ''BPM''" by (rule write_date_other) simp_all
  moreover have "md1 ''BPM'' = ?md0 ''BPM''" using fetch_lyrics_frame [OF l] by simp
  ultimately have b0: "md1 ''BPM'' = None" by simp
  have m2: "md ''BPM'' = md2 ''BPM''" using p by simp
  show ?thesis
    using calculate_bpm_frame [OF b] b0 unfolding m2 by (cases bpm) simp_all
qed

lemma assemble_pizza:
  assumes "assemble ev lyrics bpm r m path len metadata = Inr md"
  shows "md ''PIZZA'' = Some [version ev]"
  using assemble_shape [OF assms] by auto

lemma assemble_absent:
  assumes "assemble ev lyrics bpm r m path len metadata = Inr md"
    and "k \<notin> fixed_fields \<union> {''YEAR'', ''DATE'', ''LYRICS'', ''BPM'', ''PIZZA''}"
  shows "md k = None"
proof -
  have "md k = write_fields r m (clear metadata) k"
    using assms(2) by (intro assemble_untouched [OF assms(1)]) simp_all
  also have "\<dots> = None" using assms(2) by (intro other_values) simp
  finally show ?thesis .
qed

text \<open>
  C9, as amended. When an iteration reports the file as updated, the tags saved for the
  file are the mapping assembled from the empty mapping, whatever tags the file had.
  DISC, ALBUM, TRACK, TITLE and the two identifiers hold the resolved values; ARTIST
  and ALBUMARTIST hold the resolved lists and are absent when the list is empty; YEAR
  and DATE are present exactly when the album has a date; LYRICS is absent with lyrics
  disabled and otherwise holds the synced text when that is non-empty, else the plain
  text, else is absent; BPM is present exactly when BPM is enabled; PIZZA holds the
  version; and every other key is absent.
\<close>

theorem update_replaces_tags:
  assumes "process_file ev lyrics bpm r st (title, position, path) = Inr st'"
    and "console st' = console st @ [Updated (path_name path)]"
  shows "\<exists>m old len md.
           match_track title position (ar_tracks r) = Matched m \<and>
           disk st path = Flac old len \<and>
           disk st' = (disk st)(path := Flac md len) \<and>
           assemble ev lyrics bpm r m path len Map.empty = Inr md \<and>
           md ''DISC'' = Some [py_str (tr_disc m)] \<and>
           md ''ALBUM'' = Some [ar_album r] \<and>
           md ''TRACK'' = Some [py_str (tr_position m)] \<and>
           md ''TITLE'' = Some [tr_title m] \<and>
           md ''ARTIST'' = (if tr_artist m = [] then None else Some (tr_artist m)) \<and>
           md ''ALBUMARTIST'' = (if ar_artist r = [] then None else Some (ar_artist r)) \<and>
           md ''MUSICBRAINZ_ALBUMID'' = Some [ar_ids_album r] \<and>
           md ''MUSICBRAINZ_ALBUMARTISTID'' = Some [ar_ids_artist r] \<and>
           md ''YEAR'' = map_option (\<lambda>d. [takeWhile (\<lambda>c. c \<noteq> CHR ''-'') d]) (ar_date r) \<and>
           md ''DATE'' = map_option (\<lambda>d. [d]) (ar_date r) \<and>
           (if lyrics
            then \<exists>a as. ar_artist r = a # as \<and>
                   lrclib_get ev (tr_title m) a (ar_album r) len \<noteq> Lyrics_failure \<and>
                   md ''LYRICS'' =
                     (case lrclib_get ev (tr_title m) a (ar_album r) len of
                        Lyrics synced plain \<Rightarrow>
                          map_option (\<lambda>l. [l]) (if truthy synced then synced else plain)
                      | _ \<Rightarrow> None)
            else md ''LYRICS'' = None) \<and>
           (if bpm then \<exists>n. bpm_tool ev path = Some n \<and> md ''BPM'' = Some [py_str n]
            else md ''BPM'' = None) \<and>
           md ''PIZZA'' = Some [version ev] \<and>
           (\<forall>k. k \<notin> fixed_fields \<union> {''YEAR'', ''DATE'', ''LYRICS'', ''BPM'', ''PIZZA''} \<longrightarrow>
                md k = None)"
proof -
  have n1: "st' \<noteq> secho (No_data (path_name path)) st"
    using assms(2) by (auto simp: secho_def)
  have n2: "st' \<noteq> secho (No_match (path_name path)) st"
    using assms(2) by (auto simp: secho_def)
  from process_file_cases [OF assms(1)] n1 n2
  obtain m old len md where
    m: "match_track title position (ar_tracks r) = Matched m" and
    o: "disk st path = Flac old len" and
    a: "assemble ev lyrics bpm r m path len old = Inr md" and
    s: "st' = secho (Updated (path_name path)) (st\<lparr>disk := (disk st)(path := Flac md len)\<rparr>)"
    by blast
  have a': "assemble ev lyrics bpm r m path len Map.empty = Inr md"
    using a assemble_clear [of ev lyrics bpm r m path len old] by simp
  have d: "disk st' = (disk st)(path := Flac md len)"
    using s by (simp add: secho_def)
  note f = fixed_values [of r m old]
  have v1: "md ''DISC'' = Some [py_str (tr_disc m)]"
    using assemble_untouched [OF a, of "''DISC''"] f by simp
  have v2: "md ''ALBUM'' = Some [ar_album r]"
    using assemble_untouched [OF a, of "''ALBUM''"] f by simp
  have v3: "md ''TRACK'' = Some [py_str (tr_position m)]"
    using assemble_untouched [OF a, of "''TRACK''"] f by simp
  have v4: "md ''TITLE'' = Some [tr_title m]"
    using assemble_untouched [OF a, of "''TITLE''"] f by simp
  have v5: "md ''ARTIST'' = (if tr_artist m = [] then None else Some (tr_artist m))"
    using assemble_untouched [OF a, of "''ARTIST''"] f by simp
  have v6: "md ''ALBUMARTIST'' = (if ar_artist r = [] then None else Some (ar_artist r))"
    using assemble_untouched [OF a, of "''ALBUMARTIST''"] f by simp
  have v7: "md ''MUSICBRAINZ_ALBUMID'' = Some [ar_ids_album r]"
    using assemble_untouched [OF a, of "''MUSICBRAINZ_ALBUMID''"] f by simp
  have v8: "md ''MUSICBRAINZ_ALBUMARTISTID'' = Some [ar_ids_artist r]"
    using assemble_untouched [OF a, of "''MUSICBRAINZ_ALBUMARTISTID''"] f by simp
  have yr: "md ''YEAR'' = map_option (\<lambda>d. [takeWhile (\<lambda>c. c \<noteq> CHR ''-'') d]) (ar_date r)"
    using assemble_year_date [OF a] by (rule conjunct1)
  have dt: "md ''DATE'' = map_option (\<lambda>d. [d]) (ar_date r)"
    using assemble_year_date [OF a] by (rule conjunct2)
  note ly = assemble_lyrics [OF a]
  note bp = assemble_bpm [OF a]
  note pz = assemble_pizza [OF a]
  have ab: "\<forall>k. k \<notin> fixed_fields \<union> {''YEAR'', ''DATE'', ''LYRICS'', ''BPM'', ''PIZZA''} \<longrightarrow>
                md k = None"
    using assemble_absent [OF a] by blast
  show ?thesis
    by (rule exI [of _ m], rule exI [of _ old], rule exI [of _ len], rule exI [of _ md])
       (intro conjI m o d a' v1 v2 v3 v4 v5 v6 v7 v8 yr dt ly bp pz ab)
qed

lemma demo_process_A:
  "process_file demo_env False False demo_album demo_state (Some ''A'', Some ''1'', ''m/1.flac'') =
     Inr demo_state_A"
  apply (simp add: process_file_def demo_match_A demo_disk_A)
  apply (simp add: demo_state_def assemble_def fetch_lyrics_def calculate_bpm_def
      write_date_def write_fields_def set_tag_def field_index_def clear_def demo_env_def
      demo_album_def demo_track_A_def secho_def py_str_eval path_name_def demo_state_A_def
      demo_tags_A_new_def)
  done

theorem update_replaces_tags_witness:
  "process_file demo_env False False demo_album demo_state (Some ''A'', Some ''1'', ''m/1.flac'') =
     Inr demo_state_A \<and>
   disk demo_state ''m/1.flac'' = Flac demo_tags_A 180 \<and>
   demo_tags_A ''COMMENT'' = Some [''ripped''] \<and>
   disk demo_state_A ''m/1.flac'' = Flac demo_tags_A_new 180 \<and>
   demo_tags_A_new ''COMMENT'' = None \<and>
   demo_tags_A_new ''ARTIST'' = Some [''X''] \<and>
   demo_tags_A_new ''LYRICS'' = None \<and>
   demo_tags_A_new ''PIZZA'' = Some [''0.1.0'']"
proof -
  have c: "console demo_state_A = console demo_state @ [Updated (path_name ''m/1.flac'')]"
    by (simp add: demo_state_A_def demo_state_def path_name_def)
  have n: "disk demo_state_A ''m/1.flac'' = Flac demo_tags_A_new 180"
    by (simp add: demo_state_A_def)
  from update_replaces_tags [OF demo_process_A c] obtain m old len md where
    mt: "match_track (Some ''A'') (Some ''1'') (ar_tracks demo_album) = Matched m" and
    d: "disk demo_state_A = (disk demo_state)(''m/1.flac'' := Flac md len)" and
    ar: "md ''ARTIST'' = (if tr_artist m = [] then None else Some (tr_artist m))" and
    ly: "if False
         then \<exists>a as. ar_artist demo_album = a # as \<and>
                lrclib_get demo_env (tr_title m) a (ar_album demo_album) len \<noteq> Lyrics_failure \<and>
                md ''LYRICS'' =
                  (case lrclib_get demo_env (tr_title m) a (ar_album demo_album) len of
                     Lyrics synced plain \<Rightarrow>
                       map_option (\<lambda>l. [l]) (if truthy synced then synced else plain)
                   | _ \<Rightarrow> None)
         else md ''LYRICS'' = None" and
    pz: "md ''PIZZA'' = Some [version demo_env]" and
    ab: "\<forall>k. k \<notin> fixed_fields \<union> {''YEAR'', ''DATE'', ''LYRICS'', ''BPM'', ''PIZZA''} \<longrightarrow>
              md k = None"
    by (elim exE conjE) (rule that)
  from d n have md: "md = demo_tags_A_new"
    by (simp add: fun_eq_iff split: if_splits)
  have m: "m = demo_track_A" using mt demo_match_A by simp
  have "demo_tags_A_new ''COMMENT'' = None"
    using ab unfolding md by (simp add: fixed_fields_def)
  moreover have "demo_tags_A_new ''ARTIST'' = Some [''X'']"
    using ar unfolding md m by (simp add: demo_track_A_def)
  moreover have "demo_tags_A_new ''LYRICS'' = None" using ly unfolding md by simp
  moreover have "demo_tags_A_new ''PIZZA'' = Some [''0.1.0'']"
    using pz unfolding md by (simp add: demo_env_def)
  moreover have "demo_tags_A ''COMMENT'' = Some [''ripped'']"
    by (simp add: demo_tags_A_def)
  ultimately show ?thesis using demo_process_A demo_disk_A n by simp
qed

lemma unnamed_match:
  "match_track (Some ''A'') (Some ''1'') (ar_tracks unnamed_album) =
     Matched \<lparr>tr_disc = 1, tr_artist = [], tr_title = ''A'', tr_position = 1\<rparr>"
  by (simp add: match_track_def matches_def unnamed_album_def)

text \<open>
  C9 as stated fails for a record whose track names no artist: the assignment of the
  empty list drops the field, so the saved file has no ARTIST, one of the eight fixed
  fields, although the update succeeded (and the file had an ARTIST tag before).
\<close>

theorem update_drops_empty_artist_counterexample:
  "process_file demo_env False False unnamed_album demo_state
     (Some ''A'', Some ''1'', ''m/1.flac'') = Inr unnamed_state \<and>
   disk demo_state ''m/1.flac'' = Flac demo_tags_A 180 \<and>
   demo_tags_A ''ARTIST'' = Some [''X''] \<and>
   disk unnamed_state ''m/1.flac'' = Flac unnamed_tags 180 \<and>
   unnamed_tags ''ARTIST'' = None"
proof -
  have p: "process_file demo_env False False unnamed_album demo_state
     (Some ''A'', Some ''1'', ''m/1.flac'') = Inr unnamed_state"
    apply (simp add: process_file_def unnamed_match demo_disk_A)
    apply (simp add: demo_state_def assemble_def fetch_lyrics_def calculate_bpm_def
      write_date_def write_fields_def set_tag_def field_index_def clear_def demo_env_def
      demo_album_def unnamed_album_def secho_def py_str_eval path_name_def unnamed_state_def
      unnamed_tags_def)
    done
  show ?thesis
    using p demo_disk_A
    by (simp add: unnamed_state_def unnamed_tags_def demo_tags_A_def)
qed

section \<open>Forced and normal runs\<close>

text \<open>Messages are only ever added to the console.\<close>

lemma process_file_console:
  assumes "process_file ev lyrics bpm r s t = Inr s'"
  shows "\<exists>msg. console s' = console s @ [msg]"
proof -
  obtain title position path where t: "t = (title, position, path)" by (cases t) auto
  from process_file_cases [OF assms [unfolded t]] show ?thesis
    by (auto simp: secho_def)
qed

lemma process_files_prefix:
  "process_files ev lyrics bpm r s ts = Inr s' \<Longrightarrow> prefix (console s) (console s')"
proof (induction ts arbitrary: s)
  case Nil
  then show ?case by simp
next
  case (Cons t ts)
  from Cons.prems obtain u where
    a: "process_file ev lyrics bpm r s t = Inr u" and
    b: "process_files ev lyrics bpm r u ts = Inr s'"
    by (auto split: sum.splits)
  from process_file_console [OF a] have "prefix (console s) (console u)" by auto
  with Cons.IH [OF b] show ?case by (rule prefix_order.trans [rotated])
qed

text \<open>A loop that returns has passed through each of its elements.\<close>

lemma process_files_split:
  "process_files ev lyrics bpm r s ts = Inr s' \<Longrightarrow> t \<in> set ts \<Longrightarrow>
     \<exists>ts1 ts2 u u'. ts = ts1 @ t # ts2 \<and>
       process_files ev lyrics bpm r s ts1 = Inr u \<and>
       process_file ev lyrics bpm r u t = Inr u' \<and>
       process_files ev lyrics bpm r u' ts2 = Inr s'"
proof (induction ts arbitrary: s)
  case Nil
  then show ?case by simp
next
  case (Cons x ts)
  from Cons.prems(1) obtain v where
    a: "process_file ev lyrics bpm r s x = Inr v" and
    b: "process_files ev lyrics bpm r v ts = Inr s'"
    by (auto split: sum.splits)
  show ?case
  proof (cases "t = x")
    case True
    have "x # ts = [] @ t # ts \<and>
       process_files ev lyrics bpm r s [] = Inr s \<and>
       process_file ev lyrics bpm r s t = Inr v \<and>
       process_files ev lyrics bpm r v ts = Inr s'"
      using a b True by simp
    then show ?thesis by blast
  next
    case False
    with Cons.prems(2) have "t \<in> set ts" by simp
    from Cons.IH [OF b this] obtain ts1 ts2 u u' where
      s: "ts = ts1 @ t # ts2" and p1: "process_files ev lyrics bpm r v ts1 = Inr u" and
      p2: "process_file ev lyrics bpm r u t = Inr u'" and
      p3: "process_files ev lyrics bpm r u' ts2 = Inr s'"
      by blast
    have "x # ts = (x # ts1) @ t # ts2 \<and>
       process_files ev lyrics bpm r s (x # ts1) = Inr u \<and>
       process_file ev lyrics bpm r u t = Inr u' \<and>
       process_files ev lyrics bpm r u' ts2 = Inr s'"
      using s a p1 p2 p3 by simp
    then show ?thesis by blast
  qed
qed

lemma process_group_cases:
  assumes "process_group ev lyrics bpm s g = Inr s'"
  shows "snd (resolve ev (secho (Header (g_album g) (g_artist g) (length (g_tracks g))) s) g) = None \<or>
         snd (resolve ev (secho (Header (g_album g) (g_artist g) (length (g_tracks g))) s) g)
           = Some None \<or>
         (\<exists>r s1 ts. resolve ev (secho (Header (g_album g) (g_artist g) (length (g_tracks g))) s) g
                       = (s1, Some (Some r)) \<and>
            sorted_tracks (g_tracks g) = Inr ts \<and>
            process_files ev lyrics bpm r s1 ts = Inr s')"
  using assms
  by (auto simp: process_group_def Let_def split: prod.splits option.splits sum.splits)

lemma process_group_prefix:
  assumes "process_group ev lyrics bpm s g = Inr s'"
  shows "prefix (console s) (console s')"
proof -
  let ?s0 = "secho (Header (g_album g) (g_artist g) (length (g_tracks g))) s"
  have c0: "prefix (console s) (console ?s0)" by (simp add: secho_def)
  have c1: "console (fst (resolve ev ?s0 g)) = console ?s0"
    using resolve_frame [of ev ?s0 g] by simp
  from assms have "prefix (console (fst (resolve ev ?s0 g))) (console s')"
    by (auto simp: process_group_def Let_def secho_def dest: process_files_prefix
        split: prod.splits option.splits sum.splits)
  with c0 c1 show ?thesis by (auto intro: prefix_order.trans)
qed

lemma process_groups_prefix:
  "process_groups ev lyrics bpm s gs = Inr s' \<Longrightarrow> prefix (console s) (console s')"
proof (induction gs arbitrary: s)
  case Nil
  then show ?case by simp
next
  case (Cons g gs)
  from Cons.prems obtain v where
    a: "process_group ev lyrics bpm s g = Inr v" and
    b: "process_groups ev lyrics bpm v gs = Inr s'"
    by (auto split: sum.splits)
  from process_group_prefix [OF a] Cons.IH [OF b] show ?case
    by (rule prefix_order.trans)
qed

lemma process_groups_split:
  "process_groups ev lyrics bpm s gs = Inr s' \<Longrightarrow> g \<in> set gs \<Longrightarrow>
     \<exists>gs1 gs2 v w. gs = gs1 @ g # gs2 \<and>
       process_groups ev lyrics bpm s gs1 = Inr v \<and>
       process_group ev lyrics bpm v g = Inr w \<and>
       process_groups ev lyrics bpm w gs2 = Inr s'"
proof (induction gs arbitrary: s)
  case Nil
  then show ?case by simp
next
  case (Cons x gs)
  from Cons.prems(1) obtain y where
    a: "process_group ev lyrics bpm s x = Inr y" and
    b: "process_groups ev lyrics bpm y gs = Inr s'"
    by (auto split: sum.splits)
  show ?case
  proof (cases "g = x")
    case True
    have "x # gs = [] @ g # gs \<and>
       process_groups ev lyrics bpm s [] = Inr s \<and>
       process_group ev lyrics bpm s g = Inr y \<and>
       process_groups ev lyrics bpm y gs = Inr s'"
      using a b True by simp
    then show ?thesis by blast
  next
    case False
    with Cons.prems(2) have "g \<in> set gs" by simp
    from Cons.IH [OF b this] obtain gs1 gs2 v w where
      s: "gs = gs1 @ g # gs2" and p1: "process_groups ev lyrics bpm y gs1 = Inr v" and
      p2: "process_group ev lyrics bpm v g = Inr w" and
      p3: "process_groups ev lyrics bpm w gs2 = Inr s'"
      by blast
    have "x # gs = (x # gs1) @ g # gs2 \<and>
       process_groups ev lyrics bpm s (x # gs1) = Inr v \<and>
       process_group ev lyrics bpm v g = Inr w \<and>
       process_groups ev lyrics bpm w gs2 = Inr s'"
      using s a p1 p2 p3 by simp
    then show ?thesis by blast
  qed
qed

text \<open>The scan reads the disk without changing it, and keeps what is on the import list.\<close>

lemma scan_file_disk:
  "scan_file force file (s, il) = Inr (s', il') \<Longrightarrow> disk s' = disk s"
  by (auto simp: scan_file_def secho_def
      split: if_splits file_content.splits option.splits sum.splits)

lemma scan_disk:
  "scan force files (s, il) = Inr (s', il') \<Longrightarrow> disk s' = disk s"
proof (induction files arbitrary: s il)
  case Nil
  then show ?case by simp
next
  case (Cons f fs)
  from Cons.prems obtain s1 il1 where
    a: "scan_file force f (s, il) = Inr (s1, il1)" and
    b: "scan force fs (s1, il1) = Inr (s', il')"
    by (auto split: sum.splits)
  from scan_file_disk [OF a] Cons.IH [OF b] show ?case by simp
qed

lemma append_track_has:
  "\<exists>g\<in>set (append_track artist album t il). g_album g = album \<and> t \<in> set (g_tracks g)"
  by (induction il) auto

lemma append_track_keeps:
  "\<exists>g\<in>set il. g_album g = b \<and> t \<in> set (g_tracks g) \<Longrightarrow>
     \<exists>g\<in>set (append_track artist album t' il). g_album g = b \<and> t \<in> set (g_tracks g)"
  by (induction il) auto

lemma scan_file_lists:
  "scan_file force file (s, il) = Inr (s', il') \<Longrightarrow>
     il' = il \<or> (\<exists>artist album t. il' = append_track artist album t il)"
  unfolding scan_file_def
  by (simp split: if_splits file_content.splits option.splits sum.splits) blast+

lemma scan_keeps:
  "scan force files (s, il) = Inr (s', il') \<Longrightarrow>
     \<exists>g\<in>set il. g_album g = b \<and> t \<in> set (g_tracks g) \<Longrightarrow>
     \<exists>g\<in>set il'. g_album g = b \<and> t \<in> set (g_tracks g)"
proof (induction files arbitrary: s il)
  case Nil
  then show ?case by simp
next
  case (Cons f fs)
  from Cons.prems(1) obtain s1 il1 where
    a: "scan_file force f (s, il) = Inr (s1, il1)" and
    b: "scan force fs (s1, il1) = Inr (s', il')"
    by (auto split: sum.splits)
  have "\<exists>g\<in>set il1. g_album g = b \<and> t \<in> set (g_tracks g)"
    using scan_file_lists [OF a] Cons.prems(2) append_track_keeps [of il b t] by auto
  from Cons.IH [OF b this] show ?case .
qed

lemma scan_file_console:
  "scan_file force file (s, il) = Inr (s', il') \<Longrightarrow> prefix (console s) (console s')"
  by (auto simp: scan_file_def secho_def
      split: if_splits file_content.splits option.splits sum.splits)

lemma scan_console:
  "scan force files (s, il) = Inr (s', il') \<Longrightarrow> prefix (console s) (console s')"
proof (induction files arbitrary: s il)
  case Nil
  then show ?case by simp
next
  case (Cons f fs)
  from Cons.prems obtain s1 il1 where
    a: "scan_file force f (s, il) = Inr (s1, il1)" and
    b: "scan force fs (s1, il1) = Inr (s', il')"
    by (auto split: sum.splits)
  from scan_file_console [OF a] Cons.IH [OF b] show ?case by (rule prefix_order.trans)
qed

lemma marked_skip_scan:
  assumes "e_is_file file" and "path_suffix (e_path file) = ''.flac''"
    and "disk st (e_path file) = Flac metadata len"
    and "metadata ''PIZZA'' \<noteq> None"
  shows "scan False (before @ file # after) (st, il) = scan False (before @ after) (st, il)"
proof (cases "scan False before (st, il)")
  case (Inl e)
  then show ?thesis by (simp add: scan_append)
next
  case (Inr acc)
  obtain s1 il1 where acc: "acc = (s1, il1)" by (cases acc) auto
  have "disk s1 = disk st" using Inr scan_disk unfolding acc by blast
  then have "scan_file False file (s1, il1) = Inr (s1, il1)"
    using assms by (simp add: scan_file_def)
  then show ?thesis using Inr by (simp add: scan_append acc)
qed

lemma marked_force_scan:
  assumes "e_is_file file" and "path_suffix (e_path file) = ''.flac''"
    and "disk st (e_path file) = Flac metadata len"
    and "(case metadata ''ALBUMARTIST'' of Some a \<Rightarrow> Some a | None \<Rightarrow> metadata ''ARTIST'')
            = Some (artist # more_artists)"
    and "metadata ''ALBUM'' = Some (album # more_albums)"
    and "get_first (metadata ''TITLE'') = Inr title"
    and "get_first (metadata ''TRACK'') = Inr position"
    and "scan True (before @ file # after) (st, il) = Inr (s', il')"
  shows "\<exists>g\<in>set il'. g_album g = album \<and> (title, position, e_path file) \<in> set (g_tracks g)"
proof -
  from assms(8) obtain s1 il1 where
    a: "scan True before (st, il) = Inr (s1, il1)" and
    b: "scan True (file # after) (s1, il1) = Inr (s', il')"
    by (auto simp: scan_append split: sum.splits)
  have "disk s1 = disk st" using a by (rule scan_disk)
  then have f: "scan_file True file (s1, il1) =
      Inr (s1, append_track artist album (title, position, e_path file) il1)"
    using assms(1-7) by (simp add: scan_file_def)
  with b have c: "scan True after
      (s1, append_track artist album (title, position, e_path file) il1) = Inr (s', il')"
    by simp
  show ?thesis
    using c append_track_has [of artist album "(title, position, e_path file)" il1]
    by (rule scan_keeps)
qed

lemma matched_is_updated:
  assumes "process_file ev lyrics bpm r u (title, position, path) = Inr u'"
    and "match_track title position (ar_tracks r) = Matched m"
  shows "console u' = console u @ [Updated (path_name path)] \<and>
         (\<exists>md l. disk u' path = Flac md l \<and> md ''PIZZA'' = Some [version ev])"
proof -
  from process_file_cases [OF assms(1)] assms(2) obtain metadata len md where
    a: "assemble ev lyrics bpm r m path len metadata = Inr md" and
    s: "u' = secho (Updated (path_name path)) (u\<lparr>disk := (disk u)(path := Flac md len)\<rparr>)"
    by auto
  have "md ''PIZZA'' = Some [version ev]"
    using a by (auto simp: assemble_def split: sum.splits)
  then show ?thesis unfolding s by (simp add: secho_def)
qed

text \<open>
  C7. A regular \<open>.flac\<close> file whose tags hold the field PIZZA is passed over by the
  scan when \<open>force\<close> is off, and the whole command then runs as if the file were not in
  the listing. With \<open>force\<close> on it is read like any other file: given its artist and
  album the scan puts it on the import list, and every run of the command that returns
  decomposes as follows. The scan ends with the file's tuple in the group of its album;
  the groups before it are processed, then this group, then the groups after it; and
  unless this group could not be resolved (fetch failed or not found), its sorted tuples
  are processed up to the file's tuple, \<open>process_file\<close> is applied to that tuple with the
  record resolved for the group, and the remaining tuples follow, the messages of the
  file staying on the console. If the record has a match for the tuple, the file is
  reported as updated and saved with PIZZA holding the version. And whenever
  \<open>process_file\<close> reports a file as updated, the tags saved for it hold PIZZA with the
  version of the package.
\<close>

theorem processed_marker:
  assumes "e_is_file file" and "path_suffix (e_path file) = ''.flac''"
    and "disk st (e_path file) = Flac metadata len"
    and "metadata ''PIZZA'' \<noteq> None"
  shows "scan_file False file (st, import_list) = Inr (st, import_list) \<and>
         update ev True (before @ file # after) bpm lyrics False st =
           update ev True (before @ after) bpm lyrics False st \<and>
         ((case metadata ''ALBUMARTIST'' of Some a \<Rightarrow> Some a | None \<Rightarrow> metadata ''ARTIST'')
            = Some (artist # more_artists) \<and>
          metadata ''ALBUM'' = Some (album # more_albums) \<and>
          get_first (metadata ''TITLE'') = Inr title \<and>
          get_first (metadata ''TRACK'') = Inr position \<longrightarrow>
          scan_file True file (st, import_list) =
            Inr (st, append_track artist album (title, position, e_path file) import_list) \<and>
          (update ev True (before @ file # after) bpm lyrics True st = Inr st_final \<longrightarrow>
             (\<exists>s1 gs1 g gs2 v w.
                scan True (before @ file # after) (st, []) = Inr (s1, gs1 @ g # gs2) \<and>
                g_album g = album \<and> (title, position, e_path file) \<in> set (g_tracks g) \<and>
                process_groups ev lyrics bpm s1 gs1 = Inr v \<and>
                process_group ev lyrics bpm v g = Inr w \<and>
                process_groups ev lyrics bpm w gs2 = Inr st_final \<and>
                (snd (resolve ev
                        (secho (Header (g_album g) (g_artist g) (length (g_tracks g))) v) g)
                   = None \<or>
                 snd (resolve ev
                        (secho (Header (g_album g) (g_artist g) (length (g_tracks g))) v) g)
                   = Some None \<or>
                 (\<exists>r sr ts1 ts2 u u'.
                    resolve ev
                      (secho (Header (g_album g) (g_artist g) (length (g_tracks g))) v) g
                      = (sr, Some (Some r)) \<and>
                    sorted_tracks (g_tracks g) = Inr (ts1 @ (title, position, e_path file) # ts2) \<and>
                    process_files ev lyrics bpm r sr ts1 = Inr u \<and>
                    process_file ev lyrics bpm r u (title, position, e_path file) = Inr u' \<and>
                    process_files ev lyrics bpm r u' ts2 = Inr w \<and>
                    prefix (console u') (console st_final) \<and>
                    ((\<exists>m. match_track title position (ar_tracks r) = Matched m) \<longrightarrow>
                       console u' = console u @ [Updated (path_name (e_path file))] \<and>
                       (\<exists>md l. disk u' (e_path file) = Flac md l \<and>
                          md ''PIZZA'' = Some [version ev]))))))) \<and>
         (process_file ev lyrics bpm r st2 (t, p, f) = Inr st3 \<and>
          console st3 = console st2 @ [Updated (path_name f)] \<longrightarrow>
            (\<exists>md l. disk st3 f = Flac md l \<and> md ''PIZZA'' = Some [version ev]))"
proof -
  let ?t = "(title, position, e_path file)"
  have a: "scan_file False file (st, import_list) = Inr (st, import_list)"
    using assms by (simp add: scan_file_def)
  have a2: "update ev True (before @ file # after) bpm lyrics False st =
           update ev True (before @ after) bpm lyrics False st"
    unfolding update_def using marked_skip_scan [OF assms, of before after "[]"] by simp
  have b: "(case metadata ''ALBUMARTIST'' of Some a \<Rightarrow> Some a | None \<Rightarrow> metadata ''ARTIST'')
            = Some (artist # more_artists) \<and>
          metadata ''ALBUM'' = Some (album # more_albums) \<and>
          get_first (metadata ''TITLE'') = Inr title \<and>
          get_first (metadata ''TRACK'') = Inr position \<longrightarrow>
          scan_file True file (st, import_list) =
            Inr (st, append_track artist album ?t import_list) \<and>
          (update ev True (before @ file # after) bpm lyrics True st = Inr st_final \<longrightarrow>
             (\<exists>s1 gs1 g gs2 v w.
                scan True (before @ file # after) (st, []) = Inr (s1, gs1 @ g # gs2) \<and>
                g_album g = album \<and> ?t \<in> set (g_tracks g) \<and>
                process_groups ev lyrics bpm s1 gs1 = Inr v \<and>
                process_group ev lyrics bpm v g = Inr w \<and>
                process_groups ev lyrics bpm w gs2 = Inr st_final \<and>
                (snd (resolve ev
                        (secho (Header (g_album g) (g_artist g) (length (g_tracks g))) v) g)
                   = None \<or>
                 snd (resolve ev
                        (secho (Header (g_album g) (g_artist g) (length (g_tracks g))) v) g)
                   = Some None \<or>
                 (\<exists>r sr ts1 ts2 u u'.
                    resolve ev
                      (secho (Header (g_album g) (g_artist g) (length (g_tracks g))) v) g
                      = (sr, Some (Some r)) \<and>
                    sorted_tracks (g_tracks g) = Inr (ts1 @ ?t # ts2) \<and>
                    process_files ev lyrics bpm r sr ts1 = Inr u \<and>
                    process_file ev lyrics bpm r u ?t = Inr u' \<and>
                    process_files ev lyrics bpm r u' ts2 = Inr w \<and>
                    prefix (console u') (console st_final) \<and>
                    ((\<exists>m. match_track title position (ar_tracks r) = Matched m) \<longrightarrow>
                       console u' = console u @ [Updated (path_name (e_path file))] \<and>
                       (\<exists>md l. disk u' (e_path file) = Flac md l \<and>
                          md ''PIZZA'' = Some [version ev]))))))"
  proof (intro impI conjI)
    assume e: "(case metadata ''ALBUMARTIST'' of Some a \<Rightarrow> Some a | None \<Rightarrow> metadata ''ARTIST'')
            = Some (artist # more_artists) \<and>
          metadata ''ALBUM'' = Some (album # more_albums) \<and>
          get_first (metadata ''TITLE'') = Inr title \<and>
          get_first (metadata ''TRACK'') = Inr position"
    show "scan_file True file (st, import_list) = Inr (st, append_track artist album ?t import_list)"
      using assms e by (simp add: scan_file_def)
  next
    assume e: "(case metadata ''ALBUMARTIST'' of Some a \<Rightarrow> Some a | None \<Rightarrow> metadata ''ARTIST'')
            = Some (artist # more_artists) \<and>
          metadata ''ALBUM'' = Some (album # more_albums) \<and>
          get_first (metadata ''TITLE'') = Inr title \<and>
          get_first (metadata ''TRACK'') = Inr position"
      and run: "update ev True (before @ file # after) bpm lyrics True st = Inr st_final"
    from run obtain s1 il where
      sc: "scan True (before @ file # after) (st, []) = Inr (s1, il)" and
      pg: "process_groups ev lyrics bpm s1 il = Inr st_final"
      by (auto simp: update_def split: sum.splits)
    from e have e1: "(case metadata ''ALBUMARTIST'' of Some a \<Rightarrow> Some a
          | None \<Rightarrow> metadata ''ARTIST'') = Some (artist # more_artists)"
      and e2: "metadata ''ALBUM'' = Some (album # more_albums)"
      and e3: "get_first (metadata ''TITLE'') = Inr title"
      and e4: "get_first (metadata ''TRACK'') = Inr position"
      by simp_all
    from marked_force_scan [OF assms(1-3) e1 e2 e3 e4 sc] obtain g where
      g: "g \<in> set il" and ga: "g_album g = album" and gt: "?t \<in> set (g_tracks g)"
      by blast
    from process_groups_split [OF pg g] obtain gs1 gs2 v w where
      il: "il = gs1 @ g # gs2" and
      q1: "process_groups ev lyrics bpm s1 gs1 = Inr v" and
      q2: "process_group ev lyrics bpm v g = Inr w" and
      q3: "process_groups ev lyrics bpm w gs2 = Inr st_final"
      by blast
    have sc': "scan True (before @ file # after) (st, []) = Inr (s1, gs1 @ g # gs2)"
      using sc il by simp
    let ?res = "resolve ev (secho (Header (g_album g) (g_artist g) (length (g_tracks g))) v) g"
    have d: "snd ?res = None \<or> snd ?res = Some None \<or>
        (\<exists>r sr ts1 ts2 u u'.
           ?res = (sr, Some (Some r)) \<and>
           sorted_tracks (g_tracks g) = Inr (ts1 @ ?t # ts2) \<and>
           process_files ev lyrics bpm r sr ts1 = Inr u \<and>
           process_file ev lyrics bpm r u ?t = Inr u' \<and>
           process_files ev lyrics bpm r u' ts2 = Inr w \<and>
           prefix (console u') (console st_final) \<and>
           ((\<exists>m. match_track title position (ar_tracks r) = Matched m) \<longrightarrow>
              console u' = console u @ [Updated (path_name (e_path file))] \<and>
              (\<exists>md l. disk u' (e_path file) = Flac md l \<and> md ''PIZZA'' = Some [version ev])))"
      using process_group_cases [OF q2]
    proof (elim disjE exE conjE)
      assume "snd ?res = None"
      then show ?thesis by simp
    next
      assume "snd ?res = Some None"
      then show ?thesis by simp
    next
      fix r sr ts
      assume r: "?res = (sr, Some (Some r))"
        and so: "sorted_tracks (g_tracks g) = Inr ts"
        and pf: "process_files ev lyrics bpm r sr ts = Inr w"
      have "?t \<in> set ts" using sorted_tracks_set [OF so] gt by simp
      from process_files_split [OF pf this] obtain ts1 ts2 u u' where
        ts: "ts = ts1 @ ?t # ts2" and
        f1: "process_files ev lyrics bpm r sr ts1 = Inr u" and
        f2: "process_file ev lyrics bpm r u ?t = Inr u'" and
        f3: "process_files ev lyrics bpm r u' ts2 = Inr w"
        by blast
      have "prefix (console u') (console w)" using f3 by (rule process_files_prefix)
      moreover have "prefix (console w) (console st_final)"
        using q3 by (rule process_groups_prefix)
      ultimately have px: "prefix (console u') (console st_final)"
        by (rule prefix_order.trans)
      have mu: "(\<exists>m. match_track title position (ar_tracks r) = Matched m) \<longrightarrow>
              console u' = console u @ [Updated (path_name (e_path file))] \<and>
              (\<exists>md l. disk u' (e_path file) = Flac md l \<and> md ''PIZZA'' = Some [version ev])"
        using matched_is_updated [OF f2] by blast
      have so': "sorted_tracks (g_tracks g) = Inr (ts1 @ ?t # ts2)" using so ts by simp
      have "\<exists>r sr ts1 ts2 u u'.
           ?res = (sr, Some (Some r)) \<and>
           sorted_tracks (g_tracks g) = Inr (ts1 @ ?t # ts2) \<and>
           process_files ev lyrics bpm r sr ts1 = Inr u \<and>
           process_file ev lyrics bpm r u ?t = Inr u' \<and>
           process_files ev lyrics bpm r u' ts2 = Inr w \<and>
           prefix (console u') (console st_final) \<and>
           ((\<exists>m. match_track title position (ar_tracks r) = Matched m) \<longrightarrow>
              console u' = console u @ [Updated (path_name (e_path file))] \<and>
              (\<exists>md l. disk u' (e_path file) = Flac md l \<and> md ''PIZZA'' = Some [version ev]))"
        by (rule exI [of _ r], rule exI [of _ sr], rule exI [of _ ts1], rule exI [of _ ts2],
            rule exI [of _ u], rule exI [of _ u'])
           (intro conjI r so' f1 f2 f3 px mu)
      then show ?thesis by simp
    qed
    show "\<exists>s1 gs1 g gs2 v w.
                scan True (before @ file # after) (st, []) = Inr (s1, gs1 @ g # gs2) \<and>
                g_album g = album \<and> ?t \<in> set (g_tracks g) \<and>
                process_groups ev lyrics bpm s1 gs1 = Inr v \<and>
                process_group ev lyrics bpm v g = Inr w \<and>
                process_groups ev lyrics bpm w gs2 = Inr st_final \<and>
                (snd (resolve ev
                        (secho (Header (g_album g) (g_artist g) (length (g_tracks g))) v) g)
                   = None \<or>
                 snd (resolve ev
                        (secho (Header (g_album g) (g_artist g) (length (g_tracks g))) v) g)
                   = Some None \<or>
                 (\<exists>r sr ts1 ts2 u u'.
                    resolve ev
                      (secho (Header (g_album g) (g_artist g) (length (g_tracks g))) v) g
                      = (sr, Some (Some r)) \<and>
                    sorted_tracks (g_tracks g) = Inr (ts1 @ ?t # ts2) \<and>
                    process_files ev lyrics bpm r sr ts1 = Inr u \<and>
                    process_file ev lyrics bpm r u ?t = Inr u' \<and>
                    process_files ev lyrics bpm r u' ts2 = Inr w \<and>
                    prefix (console u') (console st_final) \<and>
                    ((\<exists>m. match_track title position (ar_tracks r) = Matched m) \<longrightarrow>
                       console u' = console u @ [Updated (path_name (e_path file))] \<and>
                       (\<exists>md l. disk u' (e_path file) = Flac md l \<and>
                          md ''PIZZA'' = Some [version ev]))))"
      by (rule exI [of _ s1], rule exI [of _ gs1], rule exI [of _ g], rule exI [of _ gs2],
          rule exI [of _ v], rule exI [of _ w])
         (intro conjI sc' ga gt q1 q2 q3 d)
  qed
  have c: "process_file ev lyrics bpm r st2 (t, p, f) = Inr st3 \<and>
          console st3 = console st2 @ [Updated (path_name f)] \<longrightarrow>
            (\<exists>md l. disk st3 f = Flac md l \<and> md ''PIZZA'' = Some [version ev])"
    by (auto simp: process_file_def secho_def assemble_def
        split: match_result.splits file_content.splits sum.splits)
  show ?thesis by (intro conjI a a2 b c)
qed


lemma demo_scan_forced:
  "scan True demo_listing (demo_state, []) =
     Inr (demo_state,
          [\<lparr>g_album = ''Y'', g_artist = ''X'',
            g_tracks = [(Some ''B'', Some ''2'', ''m/2.flac'')]\<rparr>])"
  by (simp add: demo_listing_def scan_file_def path_eval demo_state_def demo_disk_def)

lemma demo_group_forced:
  "process_group demo_env False True demo_state
     \<lparr>g_album = ''Y'', g_artist = ''X'',
      g_tracks = [(Some ''B'', Some ''2'', ''m/2.flac'')]\<rparr> = Inr demo_state_forced"
  apply (simp add: process_group_def Let_def resolve_def find_response_def set_response_def
      secho_def demo_state_def demo_env_def sorted_tracks_def sort_position_def py_int_eval)
  apply (simp add: process_file_def match_track_def matches_def demo_album_def py_str_eval
      demo_disk_def assemble_def fetch_lyrics_def calculate_bpm_def write_date_def
      write_fields_def set_tag_def field_index_def clear_def secho_def path_name_def
      demo_state_forced_def demo_tags_B_def)
  done

lemma demo_update_forced:
  "update demo_env True demo_listing True False True demo_state = Inr demo_state_forced"
  by (simp add: update_def demo_scan_forced demo_group_forced)

lemma demo_update_cover:
  "update demo_env True ([\<lparr>e_path = ''m/cover.jpg'', e_is_file = True\<rparr>] @ []) True False False
     demo_state = Inr demo_state"
  by (simp add: update_def scan_file_def path_eval)

theorem processed_marker_witness:
  "scan_file False \<lparr>e_path = ''m/2.flac'', e_is_file = True\<rparr> (demo_state, []) =
     Inr (demo_state, []) \<and>
   update demo_env True demo_listing True False False demo_state = Inr demo_state \<and>
   scan_file True \<lparr>e_path = ''m/2.flac'', e_is_file = True\<rparr> (demo_state, []) =
     Inr (demo_state,
          [\<lparr>g_album = ''Y'', g_artist = ''X'',
            g_tracks = [(Some ''B'', Some ''2'', ''m/2.flac'')]\<rparr>]) \<and>
   update demo_env True demo_listing True False True demo_state = Inr demo_state_forced \<and>
   disk demo_state ''m/2.flac'' =
     Flac [''ARTIST'' \<mapsto> [''X''], ''ALBUM'' \<mapsto> [''Y''], ''TITLE'' \<mapsto> [''B''],
           ''TRACK'' \<mapsto> [''2''], ''PIZZA'' \<mapsto> [''0.0.9'']] 200 \<and>
   disk demo_state_forced ''m/2.flac'' = Flac demo_tags_B 200 \<and>
   demo_tags_B ''PIZZA'' = Some [''0.1.0''] \<and>
   console demo_state_forced = [Header ''Y'' ''X'' 1, Updated ''2.flac''] \<and>
   process_file demo_env False True demo_album demo_state (Some ''B'', Some ''2'', ''m/2.flac'') =
     Inr demo_state_B \<and>
   (\<exists>md l. disk demo_state_B ''m/2.flac'' = Flac md l \<and> md ''PIZZA'' = Some [''0.1.0''])"
proof -
  let ?file = "\<lparr>e_path = ''m/2.flac'', e_is_file = True\<rparr>"
  let ?md = "[''ARTIST'' \<mapsto> [''X''], ''ALBUM'' \<mapsto> [''Y''], ''TITLE'' \<mapsto> [''B''],
              ''TRACK'' \<mapsto> [''2''], ''PIZZA'' \<mapsto> [''0.0.9'']]"
  have h1: "e_is_file ?file" by simp
  have h2: "path_suffix (e_path ?file) = ''.flac''" by (simp add: path_eval)
  have h3: "disk demo_state (e_path ?file) = Flac ?md 200"
    by (simp add: demo_state_def demo_disk_def)
  have h4: "?md ''PIZZA'' \<noteq> None" by simp
  have c: "console demo_state_B = console demo_state @ [Updated (path_name ''m/2.flac'')]"
    by (simp add: demo_state_B_def demo_state_def path_name_def)
  have v: "version demo_env = ''0.1.0''" by (simp add: demo_env_def)
  have l: "demo_listing = [\<lparr>e_path = ''m/cover.jpg'', e_is_file = True\<rparr>] @ ?file # []"
    by (simp add: demo_listing_def)
  have d: "disk demo_state_forced ''m/2.flac'' = Flac demo_tags_B 200 \<and>
      demo_tags_B ''PIZZA'' = Some [''0.1.0''] \<and>
      console demo_state_forced = [Header ''Y'' ''X'' 1, Updated ''2.flac'']"
    by (simp add: demo_state_forced_def demo_tags_B_def)
  note p = processed_marker [OF h1 h2 h3 h4, where import_list = "[]" and ev = demo_env
      and before = "[\<lparr>e_path = ''m/cover.jpg'', e_is_file = True\<rparr>]" and after = "[]"
      and bpm = True and lyrics = False and artist = "''X''" and more_artists = "[]"
      and album = "''Y''" and more_albums = "[]" and title = "Some ''B''"
      and position = "Some ''2''" and r = demo_album and ?st2.0 = demo_state
      and t = "Some ''B''" and p = "Some ''2''" and f = "''m/2.flac''"
      and ?st3.0 = demo_state_B]
  have a: "scan_file False ?file (demo_state, []) = Inr (demo_state, [])"
    using p by (rule conjunct1)
  have b: "update demo_env True demo_listing True False False demo_state = Inr demo_state"
    using p demo_update_cover unfolding l by simp
  have s: "scan_file True ?file (demo_state, []) =
     Inr (demo_state,
          [\<lparr>g_album = ''Y'', g_artist = ''X'',
            g_tracks = [(Some ''B'', Some ''2'', ''m/2.flac'')]\<rparr>])"
    using p by simp
  have z: "\<exists>md l. disk demo_state_B ''m/2.flac'' = Flac md l \<and> md ''PIZZA'' = Some [''0.1.0'']"
    using p demo_process_B c v by simp
  from a b s z d h3 demo_update_forced demo_process_B show ?thesis by simp
qed

end
